theory Spec2Isabelle
  imports Main
begin

section \<open>JavaScript numbers\<close>

text \<open>
  The \<open>amount\<close> of an expense is a JavaScript \<open>number\<close>: an IEEE 754 double.
  \<open>Fin m e\<close> is the finite double of value \<open>m * 2 ^ e\<close>, kept in the canonical form
  produced by \<open>norm_me\<close> (\<open>m\<close> odd, or \<open>Fin 0 0\<close> for zero), so that two numbers are
  the same double exactly when they are the same term.  Negative zero is identified with
  zero: the component only adds numbers, prints them with \<open>toFixed\<close> and serialises them
  with \<open>JSON.stringify\<close>, and none of these tells the two zeros apart.
\<close>

datatype number = NaN | PInf | NInf | Fin int int

text \<open>The number of binary digits of a natural number.\<close>

fun nbits :: "nat \<Rightarrow> nat" where
  "nbits n = (if n = 0 then 0 else Suc (nbits (n div 2)))"

declare nbits.simps [simp del]

function norm_me :: "int \<Rightarrow> int \<Rightarrow> number" where
  "norm_me m e =
     (if m = 0 then Fin 0 0
      else if even m then norm_me (m div 2) (e + 1)
      else Fin m e)"
  by pat_completeness auto
termination
  by (relation "measure (\<lambda>(m, e). nat \<bar>m\<bar>)") auto

declare norm_me.simps [simp del]

text \<open>\<open>round_half_even num den\<close>: the integer nearest to \<open>num / den\<close>, ties to even.\<close>

definition round_half_even :: "int \<Rightarrow> int \<Rightarrow> int" where
  "round_half_even num den =
     (let f = num div den; r = num mod den
      in if 2 * r < den then f
         else if den < 2 * r then f + 1
         else if even f then f else f + 1)"

text \<open>\<open>floor_log2 p q\<close>: the integer \<open>d\<close> with \<open>2 ^ d \<le> p / q < 2 ^ (d + 1)\<close>, for \<open>p, q > 0\<close>.\<close>

definition floor_log2 :: "int \<Rightarrow> int \<Rightarrow> int" where
  "floor_log2 p q =
     (let d = int (nbits (nat p)) - int (nbits (nat q))
      in if (if 0 \<le> d then q * 2 ^ nat d \<le> p else q \<le> p * 2 ^ nat (- d))
         then d else d - 1)"

text \<open>
  \<open>round_ratio neg p q\<close>: the double nearest to \<open>p / q\<close> (\<open>p \<ge> 0\<close>, \<open>q > 0\<close>), negated when
  \<open>neg\<close>: round to nearest, ties to even, on a 53-bit significand, with gradual underflow
  below \<open>2 ^ - 1022\<close> and overflow to infinity from \<open>2 ^ 1024\<close> on.
\<close>

definition round_ratio :: "bool \<Rightarrow> int \<Rightarrow> int \<Rightarrow> number" where
  "round_ratio neg p q =
     (if p = 0 then Fin 0 0
      else
        let k = max (floor_log2 p q) (- 1022) - 52;
            m = (if 0 \<le> k then round_half_even p (q * 2 ^ nat k)
                 else round_half_even (p * 2 ^ nat (- k)) q)
        in if 1024 < int (nbits (nat m)) + k then (if neg then NInf else PInf)
           else norm_me (if neg then - m else m) k)"

text \<open>The \<open>+\<close> of two numbers.\<close>

fun fadd :: "number \<Rightarrow> number \<Rightarrow> number" where
  "fadd (Fin m1 e1) (Fin m2 e2) =
     (let e = min e1 e2;
          s = m1 * 2 ^ nat (e1 - e) + m2 * 2 ^ nat (e2 - e)
      in if 0 \<le> e then round_ratio (s < 0) (\<bar>s\<bar> * 2 ^ nat e) 1
         else round_ratio (s < 0) \<bar>s\<bar> (2 ^ nat (- e)))"
| "fadd NaN _ = NaN"
| "fadd _ NaN = NaN"
| "fadd PInf NInf = NaN"
| "fadd NInf PInf = NaN"
| "fadd PInf _ = PInf"
| "fadd _ PInf = PInf"
| "fadd NInf _ = NInf"
| "fadd _ NInf = NInf"

declare fadd.simps(1) [simp del]

section \<open>Decimal digits\<close>

definition is_digit :: "char \<Rightarrow> bool" where
  "is_digit c = (c \<in> set ''0123456789'')"

text \<open>The value of a decimal digit: its place in \<open>0123456789\<close>.\<close>

definition digit_val :: "char \<Rightarrow> nat" where
  "digit_val c = length (takeWhile (\<lambda>d. d \<noteq> c) ''0123456789'')"

definition digit_char :: "nat \<Rightarrow> char" where
  "digit_char n = ''0123456789'' ! n"

definition digits_val :: "string \<Rightarrow> nat" where
  "digits_val ds = foldl (\<lambda>acc c. 10 * acc + digit_val c) 0 ds"

fun digits_of :: "nat \<Rightarrow> string" where
  "digits_of n = (if n < 10 then [digit_char n] else digits_of (n div 10) @ [digit_char (n mod 10)])"

declare digits_of.simps [simp del]

text \<open>
  \<open>Number.prototype.toString\<close> on an integer-valued number below \<open>10 ^ 21\<close> in magnitude:
  its decimal digits, with a minus sign when negative.
\<close>

definition int_toString :: "int \<Rightarrow> string" where
  "int_toString i = (if i < 0 then CHR ''-'' # digits_of (nat (- i)) else digits_of (nat i))"

section \<open>Printing numbers\<close>

text \<open>
  \<open>round_dec c t\<close>: the double nearest to \<open>c * 10 ^ t\<close>, for \<open>c \<ge> 0\<close>.
\<close>

definition round_dec :: "int \<Rightarrow> int \<Rightarrow> number" where
  "round_dec c t =
     (if 0 \<le> t then round_ratio False (c * 10 ^ nat t) 1
      else round_ratio False c (10 ^ nat (- t)))"

text \<open>
  The positive double \<open>m * 2 ^ e\<close> as a ratio of two positive integers.
\<close>

definition ratio_of :: "int \<Rightarrow> int \<Rightarrow> int \<times> int" where
  "ratio_of m e = (if 0 \<le> e then (m * 2 ^ nat e, 1) else (m, 2 ^ nat (- e)))"

text \<open>
  \<open>dec_exponent p q\<close>: the integer \<open>n\<close> with \<open>10 ^ (n - 1) \<le> p / q < 10 ^ n\<close>, for
  \<open>p, q > 0\<close>.
\<close>

definition dec_exponent :: "int \<Rightarrow> int \<Rightarrow> int" where
  "dec_exponent p q =
     (if q \<le> p then int (length (digits_of (nat (p div q))))
      else 1 - int (length (digits_of (nat ((q + p - 1) div p - 1)))))"

text \<open>
  \<open>Number::toString\<close> looks for the fewest decimal digits \<open>s\<close> (\<open>k\<close> of them) and the
  exponent \<open>n\<close> such that \<open>s * 10 ^ (n - k)\<close> is read back as the same double.
  \<open>try_digits k m e n0\<close> tries \<open>k\<close> digits for the double \<open>m * 2 ^ e\<close>, whose decimal exponent
  is \<open>n0\<close>: the two \<open>k\<close>-digit decimals around the value are candidates, and of two that
  read back as the double the nearer one is taken (the even one in a tie).  The result
  is \<open>(s, n)\<close>.
\<close>

definition try_digits :: "nat \<Rightarrow> int \<Rightarrow> int \<Rightarrow> int \<Rightarrow> (int \<times> int) option" where
  "try_digits k m e n0 =
     (let (p, q) = ratio_of m e;
          t = n0 - int k;
          a = (if 0 \<le> t then p else p * 10 ^ nat (- t));
          b = (if 0 \<le> t then q * 10 ^ nat t else q);
          lo = a div b;
          hi = lo + 1;
          lo_ok = (round_dec lo t = Fin m e);
          hi_ok = (round_dec hi t = Fin m e);
          lo_nearer = (2 * a < (2 * lo + 1) * b \<or> (2 * a = (2 * lo + 1) * b \<and> even lo));
          pick = (\<lambda>s. if s = 10 ^ k then Some (s div 10, n0 + 1) else Some (s, n0))
      in if lo_ok \<and> (\<not> hi_ok \<or> lo_nearer) then pick lo
         else if hi_ok then pick hi
         else None)"

text \<open>
  The search from \<open>k\<close> digits upwards.  Seventeen digits always identify a double; the
  last equation takes the nearest decimal of that many digits.
\<close>

fun find_digits :: "nat \<Rightarrow> nat \<Rightarrow> int \<Rightarrow> int \<Rightarrow> int \<Rightarrow> int \<times> int" where
  "find_digits 0 k m e n0 =
     (let (p, q) = ratio_of m e; t = n0 - int k
      in (if 0 \<le> t then round_half_even p (q * 10 ^ nat t)
          else round_half_even (p * 10 ^ nat (- t)) q, n0))"
| "find_digits (Suc fuel) k m e n0 =
     (case try_digits k m e n0 of
        Some r \<Rightarrow> r
      | None \<Rightarrow> find_digits fuel (Suc k) m e n0)"

text \<open>
  \<open>Number::toString\<close> of the positive double \<open>m * 2 ^ e\<close>, from its digits \<open>s\<close> and
  exponent \<open>n\<close>: plain decimal notation when \<open>- 6 < n \<le> 21\<close>, exponential otherwise.
\<close>

definition positive_toString :: "int \<Rightarrow> int \<Rightarrow> string" where
  "positive_toString m e =
     (let (p, q) = ratio_of m e;
          (s, n) = find_digits 16 1 m e (dec_exponent p q);
          ds = digits_of (nat s);
          k = int (length ds)
      in if k \<le> n \<and> n \<le> 21 then ds @ replicate (nat (n - k)) CHR ''0''
         else if 0 < n \<and> n \<le> 21 then take (nat n) ds @ ''.'' @ drop (nat n) ds
         else if - 6 < n \<and> n \<le> 0 then ''0.'' @ replicate (nat (- n)) CHR ''0'' @ ds
         else
           (if k = 1 then ds else take 1 ds @ ''.'' @ drop 1 ds)
           @ ''e'' @ (if 0 \<le> n - 1 then ''+'' else ''-'') @ digits_of (nat \<bar>n - 1\<bar>))"

definition Number_toString :: "number \<Rightarrow> string" where
  "Number_toString x =
     (case x of
        NaN \<Rightarrow> ''NaN''
      | PInf \<Rightarrow> ''Infinity''
      | NInf \<Rightarrow> ''-Infinity''
      | Fin m e \<Rightarrow>
          if m = 0 then ''0''
          else if m < 0 then ''-'' @ positive_toString (- m) e
          else positive_toString m e)"

text \<open>
  \<open>Number.prototype.toFixed\<close>.  A number that is not finite is printed as
  \<open>Number::toString\<close> prints it, and so is one of magnitude \<open>10 ^ 21\<close> or more (after its
  sign); any other is rounded to the nearest multiple of \<open>10 ^ - f\<close> (the larger one in
  a tie) and printed with exactly \<open>f\<close> digits after the point.
\<close>

text \<open>Whether \<open>a * 2 ^ e\<close> is at least \<open>10 ^ 21\<close>.\<close>

definition at_least_1e21 :: "int \<Rightarrow> int \<Rightarrow> bool" where
  "at_least_1e21 a e =
     (if 0 \<le> e then 10 ^ 21 \<le> a * 2 ^ nat e else 10 ^ 21 * 2 ^ nat (- e) \<le> a)"

text \<open>The integer \<open>n\<close> for which \<open>n / 10 ^ f\<close> is nearest to \<open>a * 2 ^ e\<close>, the larger of two.\<close>

definition fixed_scaled :: "nat \<Rightarrow> int \<Rightarrow> int \<Rightarrow> int" where
  "fixed_scaled f a e =
     (if 0 \<le> e then a * 2 ^ nat e * 10 ^ f
      else (2 * a * 10 ^ f + 2 ^ nat (- e)) div (2 * 2 ^ nat (- e)))"

text \<open>
  The digits of \<open>n\<close> with the point before the last \<open>f\<close> of them, after padding with
  zeros on the left to \<open>f + 1\<close> digits.
\<close>

definition fixed_point :: "nat \<Rightarrow> string \<Rightarrow> string" where
  "fixed_point f ds =
     (if f = 0 then ds
      else
        let zs = replicate (Suc f - length ds) CHR ''0'' @ ds
        in take (length zs - f) zs @ ''.'' @ drop (length zs - f) zs)"

definition toFixed :: "nat \<Rightarrow> number \<Rightarrow> string" where
  "toFixed f x =
     (case x of
        Fin m e \<Rightarrow>
          (if m < 0 then ''-'' else [])
          @ (if at_least_1e21 \<bar>m\<bar> e then positive_toString \<bar>m\<bar> e
             else fixed_point f (digits_of (nat (fixed_scaled f \<bar>m\<bar> e))))
      | _ \<Rightarrow> Number_toString x)"

section \<open>\<open>parseFloat\<close>\<close>

text \<open>
  White space that \<open>parseFloat\<close> skips at the start: the ECMAScript \<open>WhiteSpace\<close> and
  \<open>LineTerminator\<close> code points, as UTF-8 byte sequences (strings are byte lists here).
\<close>

definition white_space :: "string list" where
  "white_space =
     [[CHR 0x09], [CHR 0x0A], [CHR 0x0B], [CHR 0x0C], [CHR 0x0D], [CHR 0x20],
      [CHR 0xC2, CHR 0xA0], [CHR 0xE1, CHR 0x9A, CHR 0x80],
      [CHR 0xE2, CHR 0x80, CHR 0x80], [CHR 0xE2, CHR 0x80, CHR 0x81],
      [CHR 0xE2, CHR 0x80, CHR 0x82], [CHR 0xE2, CHR 0x80, CHR 0x83],
      [CHR 0xE2, CHR 0x80, CHR 0x84], [CHR 0xE2, CHR 0x80, CHR 0x85],
      [CHR 0xE2, CHR 0x80, CHR 0x86], [CHR 0xE2, CHR 0x80, CHR 0x87],
      [CHR 0xE2, CHR 0x80, CHR 0x88], [CHR 0xE2, CHR 0x80, CHR 0x89],
      [CHR 0xE2, CHR 0x80, CHR 0x8A], [CHR 0xE2, CHR 0x80, CHR 0xA8],
      [CHR 0xE2, CHR 0x80, CHR 0xA9], [CHR 0xE2, CHR 0x80, CHR 0xAF],
      [CHR 0xE2, CHR 0x81, CHR 0x9F], [CHR 0xE3, CHR 0x80, CHR 0x80],
      [CHR 0xEF, CHR 0xBB, CHR 0xBF]]"

definition starts_with :: "string \<Rightarrow> string \<Rightarrow> bool" where
  "starts_with p s = (take (length p) s = p)"

lemma white_space_nonempty: "w \<in> set white_space \<Longrightarrow> w \<noteq> []"
  by (auto simp: white_space_def)

function trim_start :: "string \<Rightarrow> string" where
  "trim_start [] = []"
| "trim_start (c # cs) =
     (case find (\<lambda>w. starts_with w (c # cs)) white_space of
        None \<Rightarrow> c # cs
      | Some w \<Rightarrow> trim_start (drop (length w) (c # cs)))"
  by pat_completeness auto
termination
proof (relation "measure length")
  fix c :: char and cs w
  assume "find (\<lambda>w. starts_with w (c # cs)) white_space = Some w"
  then have "w \<in> set white_space"
    by (auto simp: find_Some_iff)
  then have "w \<noteq> []"
    by (rule white_space_nonempty)
  then show "(drop (length w) (c # cs), c # cs) \<in> measure length"
    by (cases w) auto
qed simp

text \<open>An optional sign: whether it is a minus, and the rest.\<close>

fun opt_sign :: "string \<Rightarrow> bool \<times> string" where
  "opt_sign [] = (False, [])"
| "opt_sign (c # cs) =
     (if c = CHR ''-'' then (True, cs) else if c = CHR ''+'' then (False, cs) else (False, c # cs))"

text \<open>
  The decimal exponent of an \<open>ExponentPart\<close> at the start of the string; 0 when the string
  does not start with one (an \<open>e\<close> that no digit follows is not part of the literal).
\<close>

definition exponent_part :: "string \<Rightarrow> int" where
  "exponent_part s =
     (case s of
        [] \<Rightarrow> 0
      | c # cs \<Rightarrow>
          if c = CHR ''e'' \<or> c = CHR ''E'' then
            (let (eneg, r) = opt_sign cs; ds = takeWhile is_digit r
             in if ds = [] then 0
                else if eneg then - int (digits_val ds) else int (digits_val ds))
          else 0)"

text \<open>
  \<open>parseFloat\<close>: the longest prefix of the trimmed string that is a \<open>StrDecimalLiteral\<close>
  (a sign, then \<open>Infinity\<close> or digits with an optional fraction and exponent), rounded to
  the nearest double; \<open>NaN\<close> when no prefix is one.
\<close>

definition parseFloat :: "string \<Rightarrow> number" where
  "parseFloat s =
     (let (neg, t) = opt_sign (trim_start s)
      in if starts_with ''Infinity'' t then (if neg then NInf else PInf)
         else
           let ip = takeWhile is_digit t;
               r1 = dropWhile is_digit t;
               has_dot = (r1 \<noteq> [] \<and> hd r1 = CHR ''.'');
               fp = (if has_dot then takeWhile is_digit (tl r1) else []);
               r2 = (if has_dot then dropWhile is_digit (tl r1) else r1)
           in if ip = [] \<and> fp = [] then NaN
              else
                let ex = exponent_part r2 - int (length fp);
                    mv = int (digits_val (ip @ fp))
                in if 0 \<le> ex then round_ratio neg (mv * 10 ^ nat ex) 1
                   else round_ratio neg mv (10 ^ nat (- ex)))"

section \<open>The data model\<close>

text \<open>The \<open>Expense\<close> interface. The field \<open>id\<close> is written \<open>id'\<close>.\<close>

record Expense =
  id' :: string
  amount :: number
  description :: string
  category :: string
  date :: string

text \<open>A notification of the \<open>sonner\<close> toaster: \<open>toast.error\<close> or \<open>toast.success\<close>.\<close>

datatype toast = Toast_error string | Toast_success string

text \<open>
  What an export hands to the browser to save.  A worksheet is its rows of cells, the
  header row first; a workbook is its named sheets in order.  A PDF document is the
  drawing calls made on it: \<open>setFontSize\<close>, \<open>text\<close> at a position, and \<open>autoTable\<close> with
  its \<open>head\<close>, \<open>body\<close> and \<open>startY\<close>.
\<close>

type_synonym sheet = "string list list"

type_synonym workbook = "(string \<times> sheet) list"

datatype pdf_op =
  SetFontSize nat
| Text string nat nat
| AutoTable "string list list" "string list list" nat

text \<open>
  A saved file: the \<open>Blob\<close> of a MIME type and content downloaded under a name, the
  workbook written by \<open>XLSX.writeFile\<close>, or the document saved by \<open>doc.save\<close>.
\<close>

datatype download =
  Blob_download string string string
| Xlsx_download string workbook
| Pdf_download string "pdf_op list"

text \<open>
  The component with the part of the browser it touches: the four pieces of React state
  (\<open>amount_state\<close>, \<open>description_state\<close> and \<open>category_state\<close> are the form's
  \<open>amount\<close>, \<open>description\<close> and \<open>category\<close>), the local storage, the toasts shown and the
  files saved so far.  \<open>expenses_changed\<close> records that \<open>setExpenses\<close> was called since
  the last render: the effect that depends on \<open>[expenses]\<close> runs after the next one.
\<close>

record app =
  expenses :: "Expense list"
  amount_state :: string
  description_state :: string
  category_state :: string
  expenses_changed :: bool
  localStorage :: "string \<rightharpoonup> string"
  toasts :: "toast list"
  downloads :: "download list"

definition setExpenses :: "Expense list \<Rightarrow> app \<Rightarrow> app" where
  "setExpenses xs s = s\<lparr>expenses := xs, expenses_changed := True\<rparr>"

definition toast_error :: "string \<Rightarrow> app \<Rightarrow> app" where
  "toast_error msg s = s\<lparr>toasts := toasts s @ [Toast_error msg]\<rparr>"

definition toast_success :: "string \<Rightarrow> app \<Rightarrow> app" where
  "toast_success msg s = s\<lparr>toasts := toasts s @ [Toast_success msg]\<rparr>"

definition removeItem :: "string \<Rightarrow> app \<Rightarrow> app" where
  "removeItem k s = s\<lparr>localStorage := (localStorage s)(k := None)\<rparr>"

section \<open>The record store\<close>

text \<open>
  \<open>addExpense\<close>, with the two readings of the clock it makes: \<open>now\<close> is \<open>Date.now()\<close>
  (integer milliseconds) and \<open>today\<close> is \<open>new Date().toLocaleDateString()\<close>.  A string is
  falsy exactly when it is empty.
\<close>

definition addExpense :: "int \<Rightarrow> string \<Rightarrow> app \<Rightarrow> app" where
  "addExpense now today s =
     (if amount_state s = [] \<or> description_state s = [] \<or> category_state s = []
      then toast_error ''Please fill in all fields'' s
      else
        let newExpense =
              \<lparr>id' = int_toString now,
               amount = parseFloat (amount_state s),
               description = description_state s,
               category = category_state s,
               date = today\<rparr>
        in toast_success ''Expense added successfully!''
             ((setExpenses (newExpense # expenses s) s)
                \<lparr>amount_state := [], description_state := [], category_state := []\<rparr>))"

definition deleteExpense :: "string \<Rightarrow> app \<Rightarrow> app" where
  "deleteExpense i s =
     toast_success ''Expense deleted''
       (setExpenses (filter (\<lambda>expense. id' expense \<noteq> i) (expenses s)) s)"

definition resetAllExpenses :: "app \<Rightarrow> app" where
  "resetAllExpenses s =
     toast_success ''All expenses cleared'' (removeItem ''expenses'' (setExpenses [] s))"

text \<open>\<open>totalExpenses\<close>: the \<open>reduce\<close> from 0, left to right.\<close>

definition totalExpenses :: "Expense list \<Rightarrow> number" where
  "totalExpenses xs = foldl (\<lambda>sum expense. fadd sum (amount expense)) (Fin 0 0) xs"

text \<open>The form as the user fills it in before pressing the button.\<close>

definition fill_form :: "string \<Rightarrow> string \<Rightarrow> string \<Rightarrow> app \<Rightarrow> app" where
  "fill_form a d c s = s\<lparr>amount_state := a, description_state := d, category_state := c\<rparr>"

subsection \<open>The amount field\<close>

text \<open>
  The amount is written by one handler, \<open>setAmount(e.target.value)\<close>, on an
  \<open><Input type="number">\<close>.  The value of such an input is the text in the field when
  that is a valid floating-point number of HTML, and the empty string otherwise.  A
  valid floating-point number is an optional \<open>-\<close>, then digits, or a point and digits, or
  both, then optionally an exponent: \<open>e\<close> or \<open>E\<close>, an optional sign and digits.
\<close>

definition valid_exponent :: "string \<Rightarrow> bool" where
  "valid_exponent r =
     (case r of
        [] \<Rightarrow> True
      | c # cs \<Rightarrow>
          (c = CHR ''e'' \<or> c = CHR ''E'')
          \<and> snd (opt_sign cs) \<noteq> [] \<and> list_all is_digit (snd (opt_sign cs)))"

definition valid_floating_point_number :: "string \<Rightarrow> bool" where
  "valid_floating_point_number s =
     (let t = (if s \<noteq> [] \<and> hd s = CHR ''-'' then tl s else s);
          ip = takeWhile is_digit t;
          r1 = dropWhile is_digit t;
          has_dot = (r1 \<noteq> [] \<and> hd r1 = CHR ''.'');
          fp = (if has_dot then takeWhile is_digit (tl r1) else []);
          r2 = (if has_dot then dropWhile is_digit (tl r1) else r1)
      in (if has_dot then fp \<noteq> [] else ip \<noteq> []) \<and> valid_exponent r2)"

definition input_value :: "string \<Rightarrow> string" where
  "input_value typed = (if valid_floating_point_number typed then typed else [])"

definition setAmount :: "string \<Rightarrow> app \<Rightarrow> app" where
  "setAmount a s = s\<lparr>amount_state := a\<rparr>"

text \<open>The handler of the field's \<open>onChange\<close>, with \<open>typed\<close> the text in the field.\<close>

definition amount_onChange :: "string \<Rightarrow> app \<Rightarrow> app" where
  "amount_onChange typed s = setAmount (input_value typed) s"

section \<open>The export engine\<close>

text \<open>The \<open>categories\<close> table. The field \<open>value\<close> is written \<open>value'\<close>.\<close>

record category_entry =
  value' :: string
  label :: string
  color :: string

definition categories :: "category_entry list" where
  "categories =
     [\<lparr>value' = ''food'', label = ''Food & Dining'', color = ''category-food''\<rparr>,
      \<lparr>value' = ''transport'', label = ''Transportation'', color = ''category-transport''\<rparr>,
      \<lparr>value' = ''entertainment'', label = ''Entertainment'',
        color = ''category-entertainment''\<rparr>,
      \<lparr>value' = ''shopping'', label = ''Shopping'', color = ''category-shopping''\<rparr>,
      \<lparr>value' = ''utilities'', label = ''Bills & Utilities'', color = ''category-utilities''\<rparr>,
      \<lparr>value' = ''healthcare'', label = ''Healthcare'', color = ''category-healthcare''\<rparr>,
      \<lparr>value' = ''other'', label = ''Other'', color = ''category-other''\<rparr>]"

definition getCategoryColor :: "string \<Rightarrow> string" where
  "getCategoryColor categoryValue =
     (case find (\<lambda>c. value' c = categoryValue) categories of
        Some cat \<Rightarrow> color cat
      | None \<Rightarrow> ''category-other'')"

text \<open>
  \<open>categories.find(c => c.value === exp.category)?.label || exp.category\<close>: the label
  of the entry found, and the raw code when none is found or its label is empty.
\<close>

definition category_label :: "string \<Rightarrow> string" where
  "category_label code =
     (case find (\<lambda>c. value' c = code) categories of
        Some cat \<Rightarrow> if label cat = [] then code else label cat
      | None \<Rightarrow> code)"

text \<open>\<open>Array.prototype.join\<close> on strings.\<close>

fun join :: "string \<Rightarrow> string list \<Rightarrow> string" where
  "join sep [] = []"
| "join sep [x] = x"
| "join sep (x # y # ys) = x @ sep @ join sep (y # ys)"

text \<open>The emoji U+1F4B8 of the spreadsheet's and the document's headings, in UTF-8.\<close>

definition money_with_wings :: string where
  "money_with_wings = [CHR 0xF0, CHR 0x9F, CHR 0x92, CHR 0xB8]"

definition save_file :: "download \<Rightarrow> app \<Rightarrow> app" where
  "save_file f s = s\<lparr>downloads := downloads s @ [f]\<rparr>"

text \<open>The row of one expense, as all three exports build it.\<close>

definition export_row :: "Expense \<Rightarrow> string list" where
  "export_row exp =
     [date exp, description exp, category_label (category exp), toFixed 2 (amount exp)]"

definition csvContent :: "Expense list \<Rightarrow> string" where
  "csvContent xs =
     join [CHR 0x0A]
       (map (join '','') ([''Date'', ''Description'', ''Category'', ''Amount''] # map export_row xs))"

definition exportToCSV :: "app \<Rightarrow> app" where
  "exportToCSV s =
     (if length (expenses s) = 0 then toast_error ''No expenses to export'' s
      else
        toast_success ''CSV exported successfully''
          (save_file
             (Blob_download ''cleaned_financial_data.csv'' ''text/csv'' (csvContent (expenses s)))
             s))"

text \<open>
  \<open>XLSX.utils.json_to_sheet\<close> on objects given as lists of key and cell: the header row
  holds the keys in the order in which they first occur, and every object gives one
  row, with an empty cell where it lacks a key.
\<close>

definition json_to_sheet :: "(string \<times> string) list list \<Rightarrow> sheet" where
  "json_to_sheet objs =
     (let hdr = rev (remdups (rev (concat (map (map fst) objs))))
      in hdr # map (\<lambda>obj. map (\<lambda>k. case map_of obj k of Some v \<Rightarrow> v | None \<Rightarrow> []) hdr) objs)"

definition book_new :: workbook where
  "book_new = []"

definition book_append_sheet :: "workbook \<Rightarrow> sheet \<Rightarrow> string \<Rightarrow> workbook" where
  "book_append_sheet wb ws name = wb @ [(name, ws)]"

definition excel_data :: "Expense list \<Rightarrow> (string \<times> string) list list" where
  "excel_data xs =
     map (\<lambda>exp.
            [(''Date'', date exp),
             (''Description'', description exp),
             (''Category'', category_label (category exp)),
             (''Amount '' @ money_with_wings, toFixed 2 (amount exp))])
         xs"

definition exportToExcel :: "app \<Rightarrow> app" where
  "exportToExcel s =
     (if length (expenses s) = 0 then toast_error ''No expenses to export'' s
      else
        let ws = json_to_sheet (excel_data (expenses s));
            wb = book_append_sheet book_new ws ''Expenses''
        in toast_success ''Excel file exported successfully''
             (save_file (Xlsx_download ''cleaned_financial_data.xlsx'' wb) s))"

definition exportToPDF :: "app \<Rightarrow> app" where
  "exportToPDF s =
     (if length (expenses s) = 0 then toast_error ''No expenses to export'' s
      else
        let tableData = map export_row (expenses s);
            doc =
              [SetFontSize 16,
               Text (''Financial Data '' @ money_with_wings) 14 15,
               AutoTable
                 [[''Date'', ''Description'', ''Category'', ''Amount '' @ money_with_wings]]
                 tableData 25]
        in toast_success ''PDF exported successfully''
             (save_file (Pdf_download ''cleaned_financial_data.pdf'' doc) s))"

section \<open>JSON\<close>

datatype json =
  JNull
| JBool bool
| JNumber number
| JString string
| JArray "json list"
| JObject "(string \<times> json) list"

text \<open>
  What \<open>JSON.parse\<close> can raise.  \<open>OutOfFuel\<close> is raised by no browser: it is the parser
  below running out of its step bound, which is proved further down never to happen.
\<close>

datatype error = SyntaxError | OutOfFuel

subsection \<open>\<open>JSON.stringify\<close>\<close>

definition hex_char :: "nat \<Rightarrow> char" where
  "hex_char n = ''0123456789abcdef'' ! n"

text \<open>The double quote and the backslash.\<close>

definition dquote :: char where
  "dquote = CHR 0x22"

definition backslash :: char where
  "backslash = CHR 0x5C"

definition quote_char :: "char \<Rightarrow> string" where
  "quote_char c =
     (if c = dquote then [backslash, dquote]
      else if c = backslash then [backslash, backslash]
      else if c = CHR 0x08 then [backslash, CHR ''b'']
      else if c = CHR 0x09 then [backslash, CHR ''t'']
      else if c = CHR 0x0A then [backslash, CHR ''n'']
      else if c = CHR 0x0C then [backslash, CHR ''f'']
      else if c = CHR 0x0D then [backslash, CHR ''r'']
      else if (of_char c :: nat) < 32
        then [backslash, CHR ''u'', CHR ''0'', CHR ''0'',
              hex_char ((of_char c :: nat) div 16), hex_char ((of_char c :: nat) mod 16)]
      else [c])"

definition QuoteJSONString :: "string \<Rightarrow> string" where
  "QuoteJSONString s = [dquote] @ concat (map quote_char s) @ [dquote]"

text \<open>A finite number is serialised as \<open>Number::toString\<close> prints it, any other as \<open>null\<close>.\<close>

definition number_toJSON :: "number \<Rightarrow> string" where
  "number_toJSON x = (case x of Fin m e \<Rightarrow> Number_toString x | _ \<Rightarrow> ''null'')"

definition member_toJSON :: "string \<Rightarrow> string \<Rightarrow> string" where
  "member_toJSON k v = QuoteJSONString k @ '':'' @ v"

text \<open>An expense is serialised with its properties in the order \<open>addExpense\<close> creates them.\<close>

definition Expense_toJSON :: "Expense \<Rightarrow> string" where
  "Expense_toJSON e =
     ''{'' @ join '',''
       [member_toJSON ''id'' (QuoteJSONString (id' e)),
        member_toJSON ''amount'' (number_toJSON (amount e)),
        member_toJSON ''description'' (QuoteJSONString (description e)),
        member_toJSON ''category'' (QuoteJSONString (category e)),
        member_toJSON ''date'' (QuoteJSONString (date e))] @ ''}''"

definition JSON_stringify :: "Expense list \<Rightarrow> string" where
  "JSON_stringify xs = ''['' @ join '','' (map Expense_toJSON xs) @ '']''"

subsection \<open>\<open>JSON.parse\<close>\<close>

definition skip_ws :: "string \<Rightarrow> string" where
  "skip_ws s = dropWhile (\<lambda>c. c \<in> {CHR 0x20, CHR 0x09, CHR 0x0A, CHR 0x0D}) s"

definition hex_val :: "char \<Rightarrow> nat option" where
  "hex_val c =
     (if c \<in> set ''0123456789'' then Some (length (takeWhile (\<lambda>d. d \<noteq> c) ''0123456789''))
      else if c \<in> set ''abcdef'' then Some (10 + length (takeWhile (\<lambda>d. d \<noteq> c) ''abcdef''))
      else if c \<in> set ''ABCDEF'' then Some (10 + length (takeWhile (\<lambda>d. d \<noteq> c) ''ABCDEF''))
      else None)"

text \<open>The code unit of the four hexadecimal digits of a \<open>\u\<close> escape.\<close>

definition hex4 :: "string \<Rightarrow> nat option" where
  "hex4 s =
     (case map hex_val s of
        [Some a, Some b, Some c, Some d] \<Rightarrow> Some (((a * 16 + b) * 16 + c) * 16 + d)
      | _ \<Rightarrow> None)"

text \<open>The UTF-8 bytes of a code point (strings are byte lists).\<close>

definition utf8 :: "nat \<Rightarrow> string" where
  "utf8 cp =
     (if cp < 0x80 then [char_of cp]
      else if cp < 0x800 then [char_of (0xC0 + cp div 64), char_of (0x80 + cp mod 64)]
      else if cp < 0x10000
        then [char_of (0xE0 + cp div 4096), char_of (0x80 + cp div 64 mod 64),
              char_of (0x80 + cp mod 64)]
      else [char_of (0xF0 + cp div 262144), char_of (0x80 + cp div 4096 mod 64),
            char_of (0x80 + cp div 64 mod 64), char_of (0x80 + cp mod 64)])"

definition simple_escape :: "char \<Rightarrow> char option" where
  "simple_escape c =
     (if c = dquote \<or> c = backslash \<or> c = CHR ''/'' then Some c
      else if c = CHR ''b'' then Some (CHR 0x08)
      else if c = CHR ''f'' then Some (CHR 0x0C)
      else if c = CHR ''n'' then Some (CHR 0x0A)
      else if c = CHR ''r'' then Some (CHR 0x0D)
      else if c = CHR ''t'' then Some (CHR 0x09)
      else None)"

text \<open>
  The second half of a surrogate pair at the start of the string: for a high surrogate
  \<open>u\<close>, the code point of the pair when a \<open>\u\<close> escape of a low surrogate follows.
\<close>

definition low_surrogate :: "nat \<Rightarrow> string \<Rightarrow> nat option" where
  "low_surrogate u s =
     (if 0xD800 \<le> u \<and> u < 0xDC00 \<and> take 2 s = [backslash, CHR ''u'']
      then (case hex4 (take 4 (drop 2 s)) of
              Some l \<Rightarrow>
                if 0xDC00 \<le> l \<and> l < 0xE000
                then Some (0x10000 + (u - 0xD800) * 1024 + (l - 0xDC00))
                else None
            | None \<Rightarrow> None)
      else None)"

text \<open>
  The characters of a string literal after its opening quote, up to the closing one:
  the decoded string and what follows the literal.  A control character or an unknown
  escape is a syntax error (\<open>None\<close>).
\<close>

fun string_chars :: "string \<Rightarrow> (string \<times> string) option" where
  "string_chars [] = None"
| "string_chars (c # cs) =
     (if c = dquote then Some ([], cs)
      else if c = backslash then
        (case cs of
           [] \<Rightarrow> None
         | e # r \<Rightarrow>
             if e = CHR ''u'' then
               (case hex4 (take 4 r) of
                  None \<Rightarrow> None
                | Some u \<Rightarrow>
                    (case low_surrogate u (drop 4 r) of
                       Some cp \<Rightarrow>
                         map_option (\<lambda>(t, rest). (utf8 cp @ t, rest)) (string_chars (drop 10 r))
                     | None \<Rightarrow>
                         map_option (\<lambda>(t, rest). (utf8 u @ t, rest)) (string_chars (drop 4 r))))
             else
               (case simple_escape e of
                  None \<Rightarrow> None
                | Some ch \<Rightarrow> map_option (\<lambda>(t, rest). (ch # t, rest)) (string_chars r)))
      else if (of_char c :: nat) < 32 then None
      else map_option (\<lambda>(t, rest). (c # t, rest)) (string_chars cs))"

text \<open>
  A number literal at the start of the string: \<open>-\<close>, then \<open>0\<close> or digits without a
  leading zero, then an optional fraction and exponent, each with at least one digit.
  \<open>int_part\<close> is the integer part found (empty when there is none); \<open>frac_part\<close> and
  \<open>exp_part\<close> give the digits of the fraction and the exponent with what follows them,
  and \<open>None\<close> where a point or an \<open>e\<close> has no digit after it.
\<close>

definition int_part :: "string \<Rightarrow> string" where
  "int_part s = (if s \<noteq> [] \<and> hd s = CHR ''0'' then ''0'' else takeWhile is_digit s)"

definition frac_part :: "string \<Rightarrow> (string \<times> string) option" where
  "frac_part r =
     (if r \<noteq> [] \<and> hd r = CHR ''.'' then
        (if takeWhile is_digit (tl r) = [] then None
         else Some (takeWhile is_digit (tl r), dropWhile is_digit (tl r)))
      else Some ([], r))"

definition exp_part :: "string \<Rightarrow> (int \<times> string) option" where
  "exp_part r =
     (if r \<noteq> [] \<and> (hd r = CHR ''e'' \<or> hd r = CHR ''E'') then
        (let (eneg, r') = opt_sign (tl r); ed = takeWhile is_digit r'
         in if ed = [] then None
            else Some (if eneg then - int (digits_val ed) else int (digits_val ed),
                       dropWhile is_digit r'))
      else Some (0, r))"

definition json_number :: "string \<Rightarrow> (number \<times> string) option" where
  "json_number s =
     (let neg = (s \<noteq> [] \<and> hd s = CHR ''-'');
          s1 = (if neg then tl s else s);
          ip = int_part s1
      in if ip = [] then None
         else
           (case frac_part (drop (length ip) s1) of
              None \<Rightarrow> None
            | Some (fp, r2) \<Rightarrow>
                (case exp_part r2 of
                   None \<Rightarrow> None
                 | Some (e, r4) \<Rightarrow>
                     let ex = e - int (length fp);
                         mv = int (digits_val (ip @ fp))
                     in Some (if 0 \<le> ex then round_ratio neg (mv * 10 ^ nat ex) 1
                              else round_ratio neg mv (10 ^ nat (- ex)), r4))))"

datatype perr = Bad | Fuel

text \<open>
  The recursive descent, bounded by a number of steps.  \<open>parse_value\<close> reads one value at
  the start of the string; \<open>parse_elements\<close> reads the elements of a non-empty array up to
  its \<open>]\<close>, and \<open>parse_members\<close> the members of a non-empty object up to its \<open>}\<close>.  Each
  gives what it read and the rest of the string.
\<close>

fun parse_value :: "nat \<Rightarrow> string \<Rightarrow> perr + json \<times> string"
  and parse_elements :: "nat \<Rightarrow> string \<Rightarrow> perr + json list \<times> string"
  and parse_members :: "nat \<Rightarrow> string \<Rightarrow> perr + (string \<times> json) list \<times> string"
where
  "parse_value 0 s = Inl Fuel"
| "parse_value (Suc n) s =
     (if s = [] then Inl Bad
      else if hd s = CHR ''['' then
        (if skip_ws (tl s) \<noteq> [] \<and> hd (skip_ws (tl s)) = CHR '']''
         then Inr (JArray [], tl (skip_ws (tl s)))
         else (case parse_elements n (skip_ws (tl s)) of
                 Inl e \<Rightarrow> Inl e
               | Inr (vs, r) \<Rightarrow> Inr (JArray vs, r)))
      else if hd s = CHR ''{'' then
        (if skip_ws (tl s) \<noteq> [] \<and> hd (skip_ws (tl s)) = CHR ''}''
         then Inr (JObject [], tl (skip_ws (tl s)))
         else (case parse_members n (skip_ws (tl s)) of
                 Inl e \<Rightarrow> Inl e
               | Inr (ms, r) \<Rightarrow> Inr (JObject ms, r)))
      else if hd s = dquote then
        (case string_chars (tl s) of
           None \<Rightarrow> Inl Bad
         | Some (t, r) \<Rightarrow> Inr (JString t, r))
      else if starts_with ''null'' s then Inr (JNull, drop 4 s)
      else if starts_with ''true'' s then Inr (JBool True, drop 4 s)
      else if starts_with ''false'' s then Inr (JBool False, drop 5 s)
      else (case json_number s of
              None \<Rightarrow> Inl Bad
            | Some (x, r) \<Rightarrow> Inr (JNumber x, r)))"
| "parse_elements 0 s = Inl Fuel"
| "parse_elements (Suc n) s =
     (case parse_value n s of
        Inl e \<Rightarrow> Inl e
      | Inr (v, r) \<Rightarrow>
          if skip_ws r = [] then Inl Bad
          else if hd (skip_ws r) = CHR '']'' then Inr ([v], tl (skip_ws r))
          else if hd (skip_ws r) = CHR '','' then
            (case parse_elements n (skip_ws (tl (skip_ws r))) of
               Inl e \<Rightarrow> Inl e
             | Inr (vs, r') \<Rightarrow> Inr (v # vs, r'))
          else Inl Bad)"
| "parse_members 0 s = Inl Fuel"
| "parse_members (Suc n) s =
     (if s = [] \<or> hd s \<noteq> dquote then Inl Bad
      else
        (case string_chars (tl s) of
           None \<Rightarrow> Inl Bad
         | Some (k, r0) \<Rightarrow>
             if skip_ws r0 = [] \<or> hd (skip_ws r0) \<noteq> CHR '':'' then Inl Bad
             else
               (case parse_value n (skip_ws (tl (skip_ws r0))) of
                  Inl e \<Rightarrow> Inl e
                | Inr (v, r) \<Rightarrow>
                    if skip_ws r = [] then Inl Bad
                    else if hd (skip_ws r) = CHR ''}'' then Inr ([(k, v)], tl (skip_ws r))
                    else if hd (skip_ws r) = CHR '','' then
                      (case parse_members n (skip_ws (tl (skip_ws r))) of
                         Inl e \<Rightarrow> Inl e
                       | Inr (ms, r') \<Rightarrow> Inr ((k, v) # ms, r'))
                    else Inl Bad)))"

text \<open>
  \<open>JSON.parse\<close>: one value between optional white space, and nothing else.  The step
  bound is more than the parser takes on a text of this length.
\<close>

definition JSON_parse :: "string \<Rightarrow> error + json" where
  "JSON_parse s =
     (case parse_value (2 * length s + 2) (skip_ws s) of
        Inl Bad \<Rightarrow> Inl SyntaxError
      | Inl Fuel \<Rightarrow> Inl OutOfFuel
      | Inr (v, r) \<Rightarrow> if skip_ws r = [] then Inr v else Inl SyntaxError)"

section \<open>The persistence bridge\<close>

text \<open>
  The property of an object as JavaScript reads it after \<open>JSON.parse\<close>: of two members
  with the same key the later one.
\<close>

definition property :: "string \<Rightarrow> (string \<times> json) list \<Rightarrow> json option" where
  "property k ms = map_of (rev ms) k"

text \<open>
  The component runs no check on what \<open>JSON.parse\<close> returns: \<open>setExpenses\<close> takes the
  value as it is.  \<open>as_Expense\<close> is not a check of the code; it tells which parsed values
  the typed state of this model can hold, and as what.  These are the objects that have
  the properties \<open>id\<close>, \<open>description\<close>, \<open>category\<close> and \<open>date\<close> as strings and \<open>amount\<close> as a
  number.  Such an object may have further properties.  No handler, export or render of
  the component reads them; they are not kept in the record, so the text that a later
  save writes for a loaded list is given here without them.
\<close>

definition as_Expense :: "json \<Rightarrow> Expense option" where
  "as_Expense v =
     (case v of
        JObject ms \<Rightarrow>
          (case (property ''id'' ms, property ''amount'' ms, property ''description'' ms,
                 property ''category'' ms, property ''date'' ms) of
             (Some (JString i), Some (JNumber a), Some (JString d), Some (JString c),
              Some (JString t)) \<Rightarrow>
               Some \<lparr>id' = i, amount = a, description = d, category = c, date = t\<rparr>
           | _ \<Rightarrow> None)
      | _ \<Rightarrow> None)"

fun all_some :: "'a option list \<Rightarrow> 'a list option" where
  "all_some [] = Some []"
| "all_some (None # xs) = None"
| "all_some (Some x # xs) = map_option ((#) x) (all_some xs)"

definition as_Expenses :: "json \<Rightarrow> Expense list option" where
  "as_Expenses v = (case v of JArray vs \<Rightarrow> all_some (map as_Expense vs) | _ \<Rightarrow> None)"

definition setItem :: "string \<Rightarrow> string \<Rightarrow> app \<Rightarrow> app" where
  "setItem k v s = s\<lparr>localStorage := (localStorage s)(k \<mapsto> v)\<rparr>"

text \<open>
  How an effect, or the mounting, ends.  \<open>Ran s\<close>: it ran to its end and the component is
  in state \<open>s\<close>.  \<open>Threw e\<close>: it raised \<open>e\<close>, which nothing catches.  \<open>Adopted_untyped v\<close>:
  it ran \<open>setExpenses(v)\<close> on a parsed value \<open>v\<close> that is not an \<open>Expense[]\<close>; nothing is
  raised, the component holds \<open>v\<close> as its list from then on, and the typed state of this
  model does not follow it further.
\<close>

datatype outcome = Ran app | Threw error | Adopted_untyped json

text \<open>
  The first effect: \<open>getItem\<close>, and when the stored string is truthy (present and not
  empty), \<open>setExpenses(JSON.parse(savedExpenses))\<close>.  Nothing catches what
  \<open>JSON.parse\<close> throws, and nothing checks what it returns.
\<close>

definition load_effect :: "app \<Rightarrow> outcome" where
  "load_effect s =
     (case localStorage s ''expenses'' of
        None \<Rightarrow> Ran s
      | Some savedExpenses \<Rightarrow>
          if savedExpenses = [] then Ran s
          else
            (case JSON_parse savedExpenses of
               Inl e \<Rightarrow> Threw e
             | Inr v \<Rightarrow>
                 (case as_Expenses v of
                    Some xs \<Rightarrow> Ran (setExpenses xs s)
                  | None \<Rightarrow> Adopted_untyped v)))"

text \<open>The second effect: \<open>setItem('expenses', JSON.stringify(expenses))\<close>.\<close>

definition save_effect :: "app \<Rightarrow> app" where
  "save_effect s = setItem ''expenses'' (JSON_stringify (expenses s)) s"

text \<open>
  What React does after an event handler returns: when \<open>setExpenses\<close> was called, the
  component renders again and the effect on \<open>[expenses]\<close> runs.
\<close>

definition commit :: "app \<Rightarrow> app" where
  "commit s = (if expenses_changed s then save_effect (s\<lparr>expenses_changed := False\<rparr>) else s)"

text \<open>The component at its first render, over the storage it finds.\<close>

definition initial :: "(string \<rightharpoonup> string) \<Rightarrow> app" where
  "initial st =
     \<lparr>expenses = [], amount_state = [], description_state = [], category_state = [],
      expenses_changed = False, localStorage = st, toasts = [], downloads = []\<rparr>"

text \<open>
  Mounting: both effects run after the first render, in their order.  The first render
  holds the empty list, so this first save writes the empty list; the list that the
  load adopted is written after the render that follows.
\<close>

definition mount :: "(string \<rightharpoonup> string) \<Rightarrow> outcome" where
  "mount st =
     (case load_effect (initial st) of
        Ran s \<Rightarrow> Ran (commit (setItem ''expenses'' (JSON_stringify []) s))
      | Threw e \<Rightarrow> Threw e
      | Adopted_untyped v \<Rightarrow> Adopted_untyped v)"

section \<open>Sessions\<close>

text \<open>
  What the user does: fill in the form and press "Add Expense" (at a reading \<open>now\<close> of
  the clock, on the day \<open>today\<close>), press the bin of the record with some id, or press
  "Reset All".  Each event is its handler followed by the render and its effect.
\<close>

datatype op = Add int string string string string | Delete string | Reset

fun step :: "op \<Rightarrow> app \<Rightarrow> app" where
  "step (Add now today a d c) s = commit (addExpense now today (fill_form a d c s))"
| "step (Delete i) s = commit (deleteExpense i s)"
| "step Reset s = commit (resetAllExpenses s)"

definition run :: "op list \<Rightarrow> app \<Rightarrow> app" where
  "run ops s = foldl (\<lambda>s' ev. step ev s') s ops"

text \<open>The readings of the clock that a sequence of events makes, in order.\<close>

fun add_time :: "op \<Rightarrow> int list" where
  "add_time (Add now today a d c) = [now]"
| "add_time (Delete i) = []"
| "add_time Reset = []"

definition add_times :: "op list \<Rightarrow> int list" where
  "add_times ops = concat (map add_time ops)"

section \<open>Two decimal places\<close>

text \<open>
  A string of the form of a fixed-point numeral with two decimals: an optional minus
  sign, one or more digits, a point, and exactly two digits.
\<close>

definition two_decimals :: "string \<Rightarrow> bool" where
  "two_decimals s =
     (let t = (if s \<noteq> [] \<and> hd s = CHR ''-'' then tl s else s);
          ip = takeWhile is_digit t;
          r = dropWhile is_digit t
      in ip \<noteq> [] \<and> r \<noteq> [] \<and> hd r = CHR ''.'' \<and> length (tl r) = 2 \<and> list_all is_digit (tl r))"

text \<open>A finite number of magnitude below \<open>10 ^ 21\<close>.\<close>

definition below_1e21 :: "number \<Rightarrow> bool" where
  "below_1e21 x = (case x of Fin m e \<Rightarrow> \<not> at_least_1e21 \<bar>m\<bar> e | _ \<Rightarrow> False)"

section \<open>Evaluation rules\<close>

lemmas num_eval =
  round_ratio_def floor_log2_def round_half_even_def Let_def nbits.simps norm_me.simps
  fadd.simps(1)

lemmas parse_eval =
  parseFloat_def exponent_part_def starts_with_def white_space_def is_digit_def
  digit_val_def digits_val_def

lemmas digits_eval = int_toString_def digits_of.simps digit_char_def

lemmas fixed_eval =
  toFixed_def at_least_1e21_def fixed_scaled_def fixed_point_def digits_of.simps digit_char_def

lemmas app_eval =
  addExpense_def deleteExpense_def resetAllExpenses_def setExpenses_def toast_error_def
  toast_success_def removeItem_def fill_form_def initial_def

section \<open>Deleting\<close>

lemma expenses_deleteExpense:
  "expenses (deleteExpense i s) = filter (\<lambda>expense. id' expense \<noteq> i) (expenses s)"
  by (simp add: deleteExpense_def toast_success_def setExpenses_def)

lemma toasts_deleteExpense:
  "toasts (deleteExpense i s) = toasts s @ [Toast_success ''Expense deleted'']"
  by (simp add: deleteExpense_def toast_success_def setExpenses_def)

text \<open>
  C10.  For every list of expenses and every id, \<open>deleteExpense\<close> shows the success
  notification "Expense deleted", also when no record of the list has that id (and the
  list is then left as it was).
\<close>

theorem deleteExpense_always_reports_success:
  "toasts (deleteExpense i s) = toasts s @ [Toast_success ''Expense deleted'']
   \<and> (i \<notin> id' ` set (expenses s) \<longrightarrow>
        expenses (deleteExpense i s) = expenses s
        \<and> toasts (deleteExpense i s) = toasts s @ [Toast_success ''Expense deleted''])"
proof -
  have "i \<notin> id' ` set (expenses s) \<Longrightarrow> filter (\<lambda>expense. id' expense \<noteq> i) (expenses s) = expenses s"
    by (induction "expenses s") (auto simp: filter_id_conv)
  then show ?thesis
    by (simp add: expenses_deleteExpense toasts_deleteExpense)
qed

theorem deleteExpense_always_reports_success_witness:
  "''7'' \<notin> id' ` set (expenses (initial Map.empty))
   \<and> expenses (deleteExpense ''7'' (initial Map.empty)) = []
   \<and> toasts (deleteExpense ''7'' (initial Map.empty)) = [Toast_success ''Expense deleted'']"
  using deleteExpense_always_reports_success [of "''7''" "initial Map.empty"]
  by (simp add: initial_def)

text \<open>
  Two records added at the same reading of the clock: they carry the same id.
\<close>

definition twin_adds :: app where
  "twin_adds =
     addExpense 1762167600000 ''11/3/2026'' (fill_form ''12.00'' ''Bus'' ''transport''
       (addExpense 1762167600000 ''11/3/2026'' (fill_form ''25.50'' ''Coffee'' ''food''
          (initial Map.empty))))"

lemma filter_other_ids:
  "i \<notin> id' ` set xs \<Longrightarrow> filter (\<lambda>expense. id' expense \<noteq> i) xs = xs"
  by (induction xs) auto

text \<open>
  C7, as the code has it.  \<open>deleteExpense\<close> keeps, in their order, exactly the records
  whose id differs from the one given: every record with that id goes.  When no record
  has the id the list is unchanged; when the id occurs once, at any position, exactly
  that record is removed and the count drops by one.  The handler has no failing
  branch.
\<close>

theorem deleteExpense_removes_matching:
  "expenses (deleteExpense i s) = filter (\<lambda>expense. id' expense \<noteq> i) (expenses s)
   \<and> (i \<notin> id' ` set (expenses s) \<longrightarrow> expenses (deleteExpense i s) = expenses s)
   \<and> (\<forall>xs e ys.
         expenses s = xs @ e # ys \<and> id' e = i \<and> i \<notin> id' ` set xs \<and> i \<notin> id' ` set ys \<longrightarrow>
           expenses (deleteExpense i s) = xs @ ys
           \<and> length (expenses (deleteExpense i s)) + 1 = length (expenses s))"
  by (simp add: expenses_deleteExpense filter_other_ids)

theorem deleteExpense_removes_matching_witness:
  "expenses (deleteExpense ''2''
      ((initial Map.empty)\<lparr>expenses :=
         [\<lparr>id' = ''1'', amount = Fin 1 0, description = ''a'', category = ''food'', date = ''d''\<rparr>,
          \<lparr>id' = ''2'', amount = Fin 1 1, description = ''b'', category = ''food'', date = ''d''\<rparr>,
          \<lparr>id' = ''3'', amount = Fin 3 0, description = ''c'', category = ''food'', date = ''d''\<rparr>]\<rparr>))
   = [\<lparr>id' = ''1'', amount = Fin 1 0, description = ''a'', category = ''food'', date = ''d''\<rparr>,
      \<lparr>id' = ''3'', amount = Fin 3 0, description = ''c'', category = ''food'', date = ''d''\<rparr>]"
  using deleteExpense_removes_matching [of "''2''"
      "(initial Map.empty)\<lparr>expenses :=
         [\<lparr>id' = ''1'', amount = Fin 1 0, description = ''a'', category = ''food'', date = ''d''\<rparr>,
          \<lparr>id' = ''2'', amount = Fin 1 1, description = ''b'', category = ''food'', date = ''d''\<rparr>,
          \<lparr>id' = ''3'', amount = Fin 3 0, description = ''c'', category = ''food'', date = ''d''\<rparr>]\<rparr>"]
  by (simp add: initial_def)

text \<open>
  The claim as stated fails where an id occurs twice: deleting it takes the count from
  2 to 0.
\<close>

theorem deleteExpense_twin_ids_counterexample:
  "map id' (expenses twin_adds) = [''1762167600000'', ''1762167600000'']
   \<and> length (expenses twin_adds) = 2
   \<and> length (expenses (deleteExpense ''1762167600000'' twin_adds)) = 0"
  by (simp add: twin_adds_def app_eval digits_eval)

section \<open>Evaluations\<close>

lemma parseFloat_25_50: "parseFloat ''25.50'' = Fin 51 (- 1)"
  by (simp add: parse_eval num_eval)

lemma parseFloat_12_00: "parseFloat ''12.00'' = Fin 3 2"
  by (simp add: parse_eval num_eval)

lemma parseFloat_abc: "parseFloat ''abc'' = NaN"
  by (simp add: parse_eval)

lemma parseFloat_0_184: "parseFloat ''0.184'' = Fin 3314649325744685 (- 54)"
  by (simp add: parse_eval num_eval)

lemma parseFloat_1_754: "parseFloat ''1.754'' = Fin 3949656873203925 (- 51)"
  by (simp add: parse_eval num_eval)

lemma parseFloat_0_217: "parseFloat ''0.217'' = Fin 7818248953115181 (- 55)"
  by (simp add: parse_eval num_eval)

lemma parseFloat_1e21: "parseFloat ''1e21'' = Fin 476837158203125 21"
  by (simp add: parse_eval num_eval)

section \<open>Adding\<close>

lemma expenses_toast_error [simp]: "expenses (toast_error msg s) = expenses s"
  by (simp add: toast_error_def)

lemma downloads_toast_error [simp]: "downloads (toast_error msg s) = downloads s"
  by (simp add: toast_error_def)

lemma localStorage_toast_error [simp]: "localStorage (toast_error msg s) = localStorage s"
  by (simp add: toast_error_def)

lemma toasts_toast_error [simp]: "toasts (toast_error msg s) = toasts s @ [Toast_error msg]"
  by (simp add: toast_error_def)

lemma addExpense_invalid:
  "amount_state s = [] \<or> description_state s = [] \<or> category_state s = [] \<Longrightarrow>
     addExpense now today s = toast_error ''Please fill in all fields'' s"
  by (simp add: addExpense_def)

lemma addExpense_valid:
  "amount_state s \<noteq> [] \<Longrightarrow> description_state s \<noteq> [] \<Longrightarrow> category_state s \<noteq> [] \<Longrightarrow>
     expenses (addExpense now today s) =
       \<lparr>id' = int_toString now, amount = parseFloat (amount_state s),
        description = description_state s, category = category_state s, date = today\<rparr>
       # expenses s
     \<and> toasts (addExpense now today s) =
         toasts s @ [Toast_success ''Expense added successfully!'']"
  by (simp add: addExpense_def toast_success_def setExpenses_def)

lemma norm_me_not_NaN: "norm_me m e \<noteq> NaN"
proof (induction m e rule: norm_me.induct)
  case (1 m e)
  then show ?case
    by (subst norm_me.simps) simp
qed

lemma round_ratio_not_NaN: "round_ratio neg p q \<noteq> NaN"
  by (simp add: round_ratio_def Let_def norm_me_not_NaN)

text \<open>No white space starts with a minus sign, a point or a digit.\<close>

lemma trim_start_number:
  assumes "c = CHR ''-'' \<or> c = CHR ''.'' \<or> is_digit c"
  shows "trim_start (c # cs) = c # cs"
proof -
  from assms have "c = CHR ''-'' \<or> c = CHR ''.'' \<or> c = CHR ''0'' \<or> c = CHR ''1''
      \<or> c = CHR ''2'' \<or> c = CHR ''3'' \<or> c = CHR ''4'' \<or> c = CHR ''5'' \<or> c = CHR ''6''
      \<or> c = CHR ''7'' \<or> c = CHR ''8'' \<or> c = CHR ''9''"
    by (auto simp: is_digit_def)
  then have "find (\<lambda>w. starts_with w (c # cs)) white_space = None"
    by (elim disjE) (simp_all add: white_space_def starts_with_def)
  then show ?thesis
    by simp
qed

lemma valid_floating_point_number_start:
  assumes "valid_floating_point_number s"
  shows "\<exists>c cs. s = c # cs \<and> (c = CHR ''-'' \<or> c = CHR ''.'' \<or> is_digit c)"
proof (cases s)
  case Nil
  with assms show ?thesis
    by (simp add: valid_floating_point_number_def)
next
  case (Cons c cs)
  with assms show ?thesis
    by (cases "c = CHR ''-''"; cases "is_digit c")
      (auto simp: valid_floating_point_number_def Let_def split: if_splits)
qed

text \<open>
  \<open>parseFloat\<close> reads a number off every valid floating-point number: an amount that the
  field lets through is numeric.
\<close>

lemma parseFloat_digits:
  "trim_start s = s \<Longrightarrow> opt_sign s = (neg, t) \<Longrightarrow>
     takeWhile is_digit t \<noteq> []
     \<or> (dropWhile is_digit t \<noteq> [] \<and> hd (dropWhile is_digit t) = CHR ''.''
        \<and> takeWhile is_digit (tl (dropWhile is_digit t)) \<noteq> []) \<Longrightarrow>
     parseFloat s \<noteq> NaN"
  by (auto simp: parseFloat_def Let_def round_ratio_not_NaN)

lemma parseFloat_valid:
  assumes "valid_floating_point_number s"
  shows "parseFloat s \<noteq> NaN"
proof -
  from valid_floating_point_number_start [OF assms]
  obtain c cs where s: "s = c # cs" and c: "c = CHR ''-'' \<or> c = CHR ''.'' \<or> is_digit c"
    by blast
  have trim: "trim_start s = s"
    unfolding s using c by (rule trim_start_number)
  have plus: "c \<noteq> CHR ''+''"
    using c by (auto simp: is_digit_def)
  define t where "t = (if c = CHR ''-'' then cs else s)"
  have sign: "opt_sign s = (c = CHR ''-'', t)"
    using plus by (simp add: s t_def)
  have digits: "takeWhile is_digit t \<noteq> []
     \<or> (dropWhile is_digit t \<noteq> [] \<and> hd (dropWhile is_digit t) = CHR ''.''
        \<and> takeWhile is_digit (tl (dropWhile is_digit t)) \<noteq> [])"
    using assms by (auto simp: valid_floating_point_number_def Let_def s t_def split: if_splits)
  from trim sign digits show ?thesis
    by (rule parseFloat_digits)
qed

lemma addExpense_fails_iff:
  "(addExpense now today s = toast_error ''Please fill in all fields'' s)
     = (amount_state s = [] \<or> description_state s = [] \<or> category_state s = [])"
proof
  assume fails: "addExpense now today s = toast_error ''Please fill in all fields'' s"
  show "amount_state s = [] \<or> description_state s = [] \<or> category_state s = []"
  proof (rule ccontr)
    assume "\<not> (amount_state s = [] \<or> description_state s = [] \<or> category_state s = [])"
    then have "toasts (addExpense now today s)
        = toasts s @ [Toast_success ''Expense added successfully!'']"
      by (simp add: addExpense_valid)
    with fails show False
      by simp
  qed
next
  assume "amount_state s = [] \<or> description_state s = [] \<or> category_state s = []"
  then show "addExpense now today s = toast_error ''Please fill in all fields'' s"
    by (rule addExpense_invalid)
qed

lemma valid_floating_point_number_nonempty: "valid_floating_point_number s \<Longrightarrow> s \<noteq> []"
  using valid_floating_point_number_start by blast

lemma amount_onChange_fields:
  "amount_state (amount_onChange typed s)
     = (if valid_floating_point_number typed then typed else [])"
  "description_state (amount_onChange typed s) = description_state s"
  "category_state (amount_onChange typed s) = category_state s"
  "expenses (amount_onChange typed s) = expenses s"
  by (simp_all add: amount_onChange_def setAmount_def input_value_def)

text \<open>
  C3.  The amount that \<open>addExpense\<close> finds is the value of the number field: empty, or a
  valid floating-point number.  On such a state it fails validation exactly when the
  amount is absent or not numeric, the description is empty or the category is unset.
  In terms of the text in the field: exactly when that text is empty or is not a number,
  or the description is empty or the category is unset.  A failure shows the error toast
  and changes nothing else, so the list and the total are as before; every other
  addition adds a record and shows the success toast.
\<close>

theorem addExpense_validation:
  "(amount_state s = [] \<or> valid_floating_point_number (amount_state s) \<longrightarrow>
      (addExpense now today s = toast_error ''Please fill in all fields'' s)
        = (amount_state s = [] \<or> parseFloat (amount_state s) = NaN
           \<or> description_state s = [] \<or> category_state s = []))
   \<and> (addExpense now today (amount_onChange typed s)
         = toast_error ''Please fill in all fields'' (amount_onChange typed s))
       = (typed = [] \<or> \<not> valid_floating_point_number typed
          \<or> description_state s = [] \<or> category_state s = [])
   \<and> (addExpense now today s = toast_error ''Please fill in all fields'' s \<longrightarrow>
        expenses (addExpense now today s) = expenses s
        \<and> totalExpenses (expenses (addExpense now today s)) = totalExpenses (expenses s)
        \<and> localStorage (addExpense now today s) = localStorage s
        \<and> toasts (addExpense now today s) = toasts s @ [Toast_error ''Please fill in all fields''])
   \<and> (addExpense now today s \<noteq> toast_error ''Please fill in all fields'' s \<longrightarrow>
        length (expenses (addExpense now today s)) = length (expenses s) + 1
        \<and> toasts (addExpense now today s) = toasts s @ [Toast_success ''Expense added successfully!''])"
proof (intro conjI impI)
  assume field: "amount_state s = [] \<or> valid_floating_point_number (amount_state s)"
  have "parseFloat (amount_state s) = NaN \<Longrightarrow> amount_state s = []"
    using field parseFloat_valid by blast
  then show "(addExpense now today s = toast_error ''Please fill in all fields'' s)
      = (amount_state s = [] \<or> parseFloat (amount_state s) = NaN
         \<or> description_state s = [] \<or> category_state s = [])"
    unfolding addExpense_fails_iff by blast
next
  show "(addExpense now today (amount_onChange typed s)
         = toast_error ''Please fill in all fields'' (amount_onChange typed s))
       = (typed = [] \<or> \<not> valid_floating_point_number typed
          \<or> description_state s = [] \<or> category_state s = [])"
    unfolding addExpense_fails_iff amount_onChange_fields
    using valid_floating_point_number_nonempty [of typed] by auto
next
  assume fails: "addExpense now today s = toast_error ''Please fill in all fields'' s"
  show "expenses (addExpense now today s) = expenses s"
    unfolding fails by simp
  show "totalExpenses (expenses (addExpense now today s)) = totalExpenses (expenses s)"
    unfolding fails by simp
  show "localStorage (addExpense now today s) = localStorage s"
    unfolding fails by simp
  show "toasts (addExpense now today s) = toasts s @ [Toast_error ''Please fill in all fields'']"
    unfolding fails by simp
next
  assume "addExpense now today s \<noteq> toast_error ''Please fill in all fields'' s"
  then have filled: "amount_state s \<noteq> []" "description_state s \<noteq> []" "category_state s \<noteq> []"
    unfolding addExpense_fails_iff by simp_all
  from filled show "length (expenses (addExpense now today s)) = length (expenses s) + 1"
    by (simp add: addExpense_valid)
  from filled show "toasts (addExpense now today s)
      = toasts s @ [Toast_success ''Expense added successfully!'']"
    by (simp add: addExpense_valid)
qed

text \<open>The form with a description and a category, and the amount still to be typed.\<close>

definition coffee_without_amount :: app where
  "coffee_without_amount = fill_form [] ''Coffee'' ''food'' (initial Map.empty)"

text \<open>The form with an amount and a category, and no description.\<close>

definition amount_without_description :: app where
  "amount_without_description = fill_form ''25.50'' [] ''food'' (initial Map.empty)"

lemma valid_25_50: "valid_floating_point_number ''25.50''"
  by (simp add: valid_floating_point_number_def valid_exponent_def is_digit_def)

lemma not_valid_abc: "\<not> valid_floating_point_number ''abc''"
  by (simp add: valid_floating_point_number_def valid_exponent_def is_digit_def)

theorem addExpense_validation_witness:
  "valid_floating_point_number (amount_state amount_without_description)
   \<and> addExpense 1762167600000 ''11/3/2026'' amount_without_description
       = toast_error ''Please fill in all fields'' amount_without_description
   \<and> expenses (addExpense 1762167600000 ''11/3/2026'' amount_without_description) = []
   \<and> toasts (addExpense 1762167600000 ''11/3/2026'' amount_without_description)
       = [Toast_error ''Please fill in all fields'']
   \<and> amount_state (amount_onChange ''abc'' coffee_without_amount) = []
   \<and> addExpense 1762167600000 ''11/3/2026'' (amount_onChange ''abc'' coffee_without_amount)
       = toast_error ''Please fill in all fields'' (amount_onChange ''abc'' coffee_without_amount)
   \<and> addExpense 1762167600000 ''11/3/2026'' (amount_onChange ''25.50'' coffee_without_amount)
       \<noteq> toast_error ''Please fill in all fields'' (amount_onChange ''25.50'' coffee_without_amount)
   \<and> length (expenses (addExpense 1762167600000 ''11/3/2026''
        (amount_onChange ''25.50'' coffee_without_amount))) = 1
   \<and> toasts (addExpense 1762167600000 ''11/3/2026''
        (amount_onChange ''25.50'' coffee_without_amount))
       = [Toast_success ''Expense added successfully!'']"
proof -
  let ?add = "addExpense 1762167600000 ''11/3/2026''"
  let ?error = "toast_error ''Please fill in all fields''"
  have field: "valid_floating_point_number (amount_state amount_without_description)"
    by (simp add: amount_without_description_def fill_form_def valid_25_50)
  have "(?add amount_without_description = ?error amount_without_description)
      = (amount_state amount_without_description = []
         \<or> parseFloat (amount_state amount_without_description) = NaN
         \<or> description_state amount_without_description = []
         \<or> category_state amount_without_description = [])"
    using addExpense_validation [of amount_without_description 1762167600000 "''11/3/2026''",
        THEN conjunct1] field by simp
  then have fails: "?add amount_without_description = ?error amount_without_description"
    by (simp add: amount_without_description_def fill_form_def)
  have unchanged: "expenses (?add amount_without_description) = []
      \<and> toasts (?add amount_without_description) = [Toast_error ''Please fill in all fields'']"
    using addExpense_validation [of amount_without_description 1762167600000 "''11/3/2026''",
        THEN conjunct2, THEN conjunct2, THEN conjunct1, THEN mp, OF fails]
    by (simp add: amount_without_description_def fill_form_def initial_def)
  have cleared: "amount_state (amount_onChange ''abc'' coffee_without_amount) = []"
    by (simp add: amount_onChange_fields not_valid_abc)
  have letters: "?add (amount_onChange ''abc'' coffee_without_amount)
      = ?error (amount_onChange ''abc'' coffee_without_amount)"
    using addExpense_validation [of coffee_without_amount 1762167600000 "''11/3/2026''" "''abc''",
        THEN conjunct2, THEN conjunct1]
    by (simp add: not_valid_abc)
  have passes: "?add (amount_onChange ''25.50'' coffee_without_amount)
      \<noteq> ?error (amount_onChange ''25.50'' coffee_without_amount)"
    using addExpense_validation [of coffee_without_amount 1762167600000 "''11/3/2026''" "''25.50''",
        THEN conjunct2, THEN conjunct1]
    by (simp add: valid_25_50 coffee_without_amount_def fill_form_def)
  have added: "length (expenses (?add (amount_onChange ''25.50'' coffee_without_amount))) = 1
      \<and> toasts (?add (amount_onChange ''25.50'' coffee_without_amount))
          = [Toast_success ''Expense added successfully!'']"
    using addExpense_validation [of "amount_onChange ''25.50'' coffee_without_amount"
        1762167600000 "''11/3/2026''",
        THEN conjunct2, THEN conjunct2, THEN conjunct2, THEN mp, OF passes]
    by (simp add: amount_onChange_def setAmount_def coffee_without_amount_def fill_form_def
          initial_def)
  from field fails unchanged cleared letters passes added show ?thesis
    by (intro conjI) simp_all
qed

text \<open>
  C6, as the code has it.  Adding a valid record raises the count by exactly one and
  puts the new record first, before the old records in their order.  The total is then
  the sum taken again from 0 over the new list, the new amount first, each step rounded
  to a double; on a list that was empty it is \<open>0 + amount\<close>.
\<close>

theorem addExpense_prepends:
  "amount_state s \<noteq> [] \<and> description_state s \<noteq> [] \<and> category_state s \<noteq> [] \<longrightarrow>
     length (expenses (addExpense now today s)) = length (expenses s) + 1
     \<and> expenses (addExpense now today s) =
         \<lparr>id' = int_toString now, amount = parseFloat (amount_state s),
          description = description_state s, category = category_state s, date = today\<rparr>
         # expenses s
     \<and> totalExpenses (expenses (addExpense now today s)) =
         foldl (\<lambda>sum expense. fadd sum (amount expense))
           (fadd (Fin 0 0) (parseFloat (amount_state s))) (expenses s)
     \<and> (expenses s = [] \<longrightarrow>
           totalExpenses (expenses (addExpense now today s))
             = fadd (Fin 0 0) (parseFloat (amount_state s)))"
  by (simp add: addExpense_valid totalExpenses_def)

text \<open>The form filled in for a bus fare, over a list that holds one coffee.\<close>

definition bus_after_coffee :: app where
  "bus_after_coffee =
     (initial Map.empty)
       \<lparr>expenses :=
          [\<lparr>id' = ''1762167600123'', amount = Fin 51 (- 1), description = ''Coffee'',
            category = ''food'', date = ''11/3/2026''\<rparr>],
        amount_state := ''12.00'', description_state := ''Bus'',
        category_state := ''transport''\<rparr>"

theorem addExpense_prepends_witness:
  "map description (expenses (addExpense 1762167600456 ''11/3/2026'' bus_after_coffee))
     = [''Bus'', ''Coffee'']
   \<and> length (expenses (addExpense 1762167600456 ''11/3/2026'' bus_after_coffee)) = 2
   \<and> totalExpenses (expenses (addExpense 1762167600456 ''11/3/2026'' bus_after_coffee))
     = Fin 75 (- 1)"
  using addExpense_prepends [of bus_after_coffee 1762167600456 "''11/3/2026''"]
  by (simp add: bus_after_coffee_def initial_def parseFloat_12_00 totalExpenses_def num_eval)

text \<open>
  The claim as stated fails on the total.  With 1.754 and 0.184 in the list the total
  is 1.938; adding 0.217 makes it 2.1550000000000002, shown as 2.16, while 1.938 + 0.217
  is 2.155, shown as 2.15.
\<close>

definition before_third_add :: app where
  "before_third_add =
     fill_form ''0.217'' ''Stamp'' ''other''
       (addExpense 1762167600456 ''11/3/2026'' (fill_form ''1.754'' ''Bus'' ''transport''
          (addExpense 1762167600123 ''11/3/2026'' (fill_form ''0.184'' ''Gum'' ''food''
             (initial Map.empty)))))"

lemma before_third_add_amounts:
  "map amount (expenses before_third_add)
     = [Fin 3949656873203925 (- 51), Fin 3314649325744685 (- 54)]"
  by (simp add: before_third_add_def app_eval parseFloat_1_754 parseFloat_0_184)

lemma after_third_add_amounts:
  "map amount (expenses (addExpense 1762167600789 ''11/3/2026'' before_third_add))
     = [Fin 7818248953115181 (- 55), Fin 3949656873203925 (- 51), Fin 3314649325744685 (- 54)]"
  by (simp add: before_third_add_def app_eval parseFloat_1_754 parseFloat_0_184
        parseFloat_0_217)

lemma totalExpenses_amounts:
  "totalExpenses xs = foldl fadd (Fin 0 0) (map amount xs)"
  by (simp add: totalExpenses_def foldl_map)

lemma total_before_third_add:
  "totalExpenses (expenses before_third_add) = Fin 8727976077844021 (- 52)"
  by (simp add: totalExpenses_amounts before_third_add_amounts num_eval)

lemma total_after_third_add:
  "totalExpenses (expenses (addExpense 1762167600789 ''11/3/2026'' before_third_add))
     = Fin 2426314299245855 (- 50)"
  by (simp add: totalExpenses_amounts after_third_add_amounts num_eval)

lemma old_total_plus_amount:
  "fadd (Fin 8727976077844021 (- 52)) (Fin 7818248953115181 (- 55)) = Fin 4852628598491709 (- 51)"
  by (simp add: num_eval)

lemma toFixed_2_155_above: "toFixed 2 (Fin 2426314299245855 (- 50)) = ''2.16''"
  by (simp add: fixed_eval)

lemma toFixed_2_155_below: "toFixed 2 (Fin 4852628598491709 (- 51)) = ''2.15''"
  by (simp add: fixed_eval)

theorem addExpense_total_counterexample:
  "totalExpenses (expenses (addExpense 1762167600789 ''11/3/2026'' before_third_add))
     \<noteq> fadd (totalExpenses (expenses before_third_add)) (parseFloat ''0.217'')
   \<and> toFixed 2 (totalExpenses (expenses (addExpense 1762167600789 ''11/3/2026'' before_third_add)))
     = ''2.16''
   \<and> toFixed 2 (fadd (totalExpenses (expenses before_third_add)) (parseFloat ''0.217''))
     = ''2.15''"
  by (simp add: total_before_third_add total_after_third_add parseFloat_0_217
        old_total_plus_amount toFixed_2_155_above toFixed_2_155_below)

section \<open>Exporting\<close>

text \<open>
  C8.  On an empty list each of the three exports shows the error toast "No expenses to
  export" and does nothing else: no file is saved, and the list and the storage are as
  before.
\<close>

theorem export_of_empty_list:
  "expenses s = [] \<longrightarrow>
     exportToCSV s = toast_error ''No expenses to export'' s
     \<and> exportToExcel s = toast_error ''No expenses to export'' s
     \<and> exportToPDF s = toast_error ''No expenses to export'' s
     \<and> (\<forall>export \<in> {exportToCSV, exportToExcel, exportToPDF}.
           toasts (export s) = toasts s @ [Toast_error ''No expenses to export'']
           \<and> downloads (export s) = downloads s
           \<and> expenses (export s) = expenses s
           \<and> localStorage (export s) = localStorage s)"
  by (simp add: exportToCSV_def exportToExcel_def exportToPDF_def)

theorem export_of_empty_list_witness:
  "expenses (initial Map.empty) = []
   \<and> toasts (exportToCSV (initial Map.empty)) = [Toast_error ''No expenses to export'']
   \<and> toasts (exportToExcel (initial Map.empty)) = [Toast_error ''No expenses to export'']
   \<and> toasts (exportToPDF (initial Map.empty)) = [Toast_error ''No expenses to export'']
   \<and> downloads (exportToCSV (initial Map.empty)) = []
   \<and> downloads (exportToExcel (initial Map.empty)) = []
   \<and> downloads (exportToPDF (initial Map.empty)) = []"
  using export_of_empty_list [of "initial Map.empty"]
  by (simp add: initial_def)

lemma remdups_append_covered: "set xs \<subseteq> set ys \<Longrightarrow> remdups (xs @ ys) = remdups ys"
  by (induction xs) auto

lemma remdups_repeated: "distinct ks \<Longrightarrow> remdups (concat (replicate (Suc n) ks)) = ks"
proof (induction n)
  case 0
  then show ?case by simp
next
  case (Suc n)
  have "set ks \<subseteq> set (concat (replicate (Suc n) ks))"
    by simp
  then have "remdups (ks @ concat (replicate (Suc n) ks)) = remdups (concat (replicate (Suc n) ks))"
    by (rule remdups_append_covered)
  with Suc show ?case by simp
qed

lemma concat_replicate_commute: "concat (replicate n xs) @ xs = xs @ concat (replicate n xs)"
  by (induction n) simp_all

lemma rev_concat_replicate: "rev (concat (replicate n ks)) = concat (replicate n (rev ks))"
  by (induction n) (simp_all add: concat_replicate_commute)

lemma first_seen_repeated:
  assumes "distinct ks"
  shows "rev (remdups (rev (concat (replicate (Suc n) ks)))) = ks"
proof -
  have "remdups (concat (replicate (Suc n) (rev ks))) = rev ks"
    using assms by (intro remdups_repeated) simp
  then show ?thesis
    by (simp only: rev_concat_replicate rev_rev_ident)
qed

definition excel_keys :: "string list" where
  "excel_keys = [''Date'', ''Description'', ''Category'', ''Amount '' @ money_with_wings]"

lemma excel_data_keys:
  "concat (map (map fst) (excel_data xs)) = concat (replicate (length xs) excel_keys)"
  by (induction xs) (simp_all add: excel_data_def excel_keys_def)

lemma excel_header:
  assumes "xs \<noteq> []"
  shows "rev (remdups (rev (concat (map (map fst) (excel_data xs))))) = excel_keys"
proof -
  from assms obtain n where n: "length xs = Suc n"
    by (cases xs) auto
  have "distinct excel_keys"
    by (simp add: excel_keys_def money_with_wings_def)
  then show ?thesis
    unfolding excel_data_keys n by (rule first_seen_repeated)
qed

lemma excel_rows:
  "map (\<lambda>obj. map (\<lambda>k. case map_of obj k of Some v \<Rightarrow> v | None \<Rightarrow> []) excel_keys) (excel_data xs)
     = map export_row xs"
  by (simp add: excel_data_def excel_keys_def export_row_def money_with_wings_def)

lemma json_to_sheet_excel_data:
  "xs \<noteq> [] \<Longrightarrow> json_to_sheet (excel_data xs) = excel_keys # map export_row xs"
  by (simp add: json_to_sheet_def excel_header excel_rows)

text \<open>
  C5, as the code has it.  On a list that is not empty the spreadsheet export saves
  one workbook, \<open>cleaned_financial_data.xlsx\<close>, of a single sheet named "Expenses": its
  header row is Date, Description, Category and "Amount" followed by a space and the
  emoji U+1F4B8, and below it stands one row per record in snapshot order, holding the
  date, the description, the label of the category and the amount printed by
  \<open>toFixed(2)\<close>.
\<close>

theorem exportToExcel_workbook:
  "expenses s \<noteq> [] \<longrightarrow>
     downloads (exportToExcel s) =
       downloads s
       @ [Xlsx_download ''cleaned_financial_data.xlsx''
            [(''Expenses'',
              [''Date'', ''Description'', ''Category'', ''Amount '' @ money_with_wings]
              # map export_row (expenses s))]]
     \<and> toasts (exportToExcel s) = toasts s @ [Toast_success ''Excel file exported successfully'']
     \<and> expenses (exportToExcel s) = expenses s"
  by (simp add: exportToExcel_def json_to_sheet_excel_data excel_keys_def book_new_def
        book_append_sheet_def save_file_def toast_success_def)

text \<open>A list that holds one coffee.\<close>

definition one_coffee :: app where
  "one_coffee =
     (initial Map.empty)
       \<lparr>expenses :=
          [\<lparr>id' = ''1762167600123'', amount = Fin 51 (- 1), description = ''Coffee'',
            category = ''food'', date = ''11/3/2026''\<rparr>]\<rparr>"

lemma toFixed_25_50: "toFixed 2 (Fin 51 (- 1)) = ''25.50''"
  by (simp add: fixed_eval)

lemma toFixed_12_00: "toFixed 2 (Fin 3 2) = ''12.00''"
  by (simp add: fixed_eval)

lemma category_label_food: "category_label ''food'' = ''Food & Dining''"
  by (simp add: category_label_def categories_def)

lemma category_label_transport: "category_label ''transport'' = ''Transportation''"
  by (simp add: category_label_def categories_def)

lemma category_label_other: "category_label ''other'' = ''Other''"
  by (simp add: category_label_def categories_def)

theorem exportToExcel_workbook_witness:
  "downloads (exportToExcel one_coffee) =
     [Xlsx_download ''cleaned_financial_data.xlsx''
        [(''Expenses'',
          [[''Date'', ''Description'', ''Category'', ''Amount '' @ money_with_wings],
           [''11/3/2026'', ''Coffee'', ''Food & Dining'', ''25.50'']])]]"
  using exportToExcel_workbook [of one_coffee]
  by (simp add: one_coffee_def initial_def export_row_def toFixed_25_50 category_label_food)

text \<open>
  The claim as stated fails on the fourth column: its header is not "Amount".
\<close>

theorem exportToExcel_header_counterexample:
  "downloads (exportToExcel one_coffee) =
     [Xlsx_download ''cleaned_financial_data.xlsx''
        [(''Expenses'',
          [[''Date'', ''Description'', ''Category'',
            ''Amount '' @ [CHR 0xF0, CHR 0x9F, CHR 0x92, CHR 0xB8]],
           [''11/3/2026'', ''Coffee'', ''Food & Dining'', ''25.50'']])]]
   \<and> ''Amount '' @ [CHR 0xF0, CHR 0x9F, CHR 0x92, CHR 0xB8] \<noteq> ''Amount''"
  by (simp add: exportToExcel_def json_to_sheet_excel_data excel_keys_def book_new_def
        book_append_sheet_def save_file_def toast_success_def one_coffee_def initial_def
        export_row_def toFixed_25_50 category_label_food money_with_wings_def)

section \<open>The CSV text\<close>

lemma is_digit_digit_char: "k < 10 \<Longrightarrow> is_digit (digit_char k)"
proof -
  assume "k < 10"
  then have "k = 0 \<or> k = 1 \<or> k = 2 \<or> k = 3 \<or> k = 4 \<or> k = 5 \<or> k = 6 \<or> k = 7 \<or> k = 8 \<or> k = 9"
    by arith
  then show ?thesis
    by (elim disjE) (simp_all add: is_digit_def digit_char_def)
qed

lemma digits_of_digits: "list_all is_digit (digits_of n)"
proof (induction n rule: digits_of.induct)
  case (1 n)
  show ?case
  proof (cases "n < 10")
    case True
    then show ?thesis
      by (simp add: digits_of.simps [of n] is_digit_digit_char)
  next
    case False
    with 1 show ?thesis
      by (simp add: digits_of.simps [of n] is_digit_digit_char)
  qed
qed

lemma digits_of_nonempty: "digits_of n \<noteq> []"
  by (simp add: digits_of.simps [of n])

lemma not_digit_point: "\<not> is_digit CHR ''.''"
  by (simp add: is_digit_def)

lemma not_digit_minus: "\<not> is_digit CHR ''-''"
  by (simp add: is_digit_def)

lemma two_decimals_shape:
  assumes ip: "ip \<noteq> []" "list_all is_digit ip"
    and fp: "length fp = 2" "list_all is_digit fp"
    and sg: "sg = [] \<or> sg = ''-''"
  shows "two_decimals (sg @ ip @ ''.'' @ fp)"
proof -
  from ip have hd_ip: "hd ip \<noteq> CHR ''-''"
    using not_digit_minus by (cases ip) auto
  have strip: "(if sg @ ip @ ''.'' @ fp \<noteq> [] \<and> hd (sg @ ip @ ''.'' @ fp) = CHR ''-''
                then tl (sg @ ip @ ''.'' @ fp) else sg @ ip @ ''.'' @ fp) = ip @ ''.'' @ fp"
    using sg ip(1) hd_ip by (cases ip) auto
  have all: "\<forall>x \<in> set ip. is_digit x"
    using ip(2) by (simp add: list_all_iff)
  have tw: "takeWhile is_digit (ip @ ''.'' @ fp) = ip"
    using all not_digit_point by (simp add: takeWhile_append2)
  have dw: "dropWhile is_digit (ip @ ''.'' @ fp) = ''.'' @ fp"
    using all not_digit_point by (simp add: dropWhile_append2)
  show ?thesis
    unfolding two_decimals_def strip Let_def tw dw using ip fp by simp
qed

lemma fixed_point_shape:
  assumes "ds \<noteq> []" "list_all is_digit ds"
  shows "\<exists>ip fp. fixed_point 2 ds = ip @ ''.'' @ fp \<and> ip \<noteq> [] \<and> list_all is_digit ip
           \<and> length fp = 2 \<and> list_all is_digit fp"
proof -
  define zs where "zs = replicate (Suc 2 - length ds) CHR ''0'' @ ds"
  have len: "3 \<le> length zs"
    by (simp add: zs_def)
  have zero: "is_digit CHR ''0''"
    by (simp add: is_digit_def)
  have digs: "list_all is_digit zs"
    using assms(2) zero by (auto simp: zs_def list_all_iff)
  have fx: "fixed_point 2 ds = take (length zs - 2) zs @ ''.'' @ drop (length zs - 2) zs"
    by (simp add: fixed_point_def zs_def Let_def)
  have "take (length zs - 2) zs \<noteq> []"
    using len by (cases zs) auto
  moreover have "list_all is_digit (take (length zs - 2) zs)"
    using digs by (auto simp: list_all_iff dest: in_set_takeD)
  moreover have "length (drop (length zs - 2) zs) = 2"
    using len by simp
  moreover have "list_all is_digit (drop (length zs - 2) zs)"
    using digs by (auto simp: list_all_iff dest: in_set_dropD)
  ultimately show ?thesis
    using fx by blast
qed

lemma toFixed_two_decimals:
  assumes "below_1e21 x"
  shows "two_decimals (toFixed 2 x)"
proof -
  from assms obtain m e where x: "x = Fin m e" and small: "\<not> at_least_1e21 \<bar>m\<bar> e"
    by (cases x) (auto simp: below_1e21_def)
  obtain ip fp where shape:
    "fixed_point 2 (digits_of (nat (fixed_scaled 2 \<bar>m\<bar> e))) = ip @ ''.'' @ fp"
    "ip \<noteq> []" "list_all is_digit ip" "length fp = 2" "list_all is_digit fp"
    using fixed_point_shape [OF digits_of_nonempty digits_of_digits] by blast
  have "toFixed 2 x = (if m < 0 then ''-'' else []) @ ip @ ''.'' @ fp"
    using x small shape(1) by (simp add: toFixed_def)
  moreover have "two_decimals ((if m < 0 then ''-'' else []) @ ip @ ''.'' @ fp)"
    using shape(2-5) by (intro two_decimals_shape) auto
  ultimately show ?thesis by simp
qed

lemma join_lines:
  "join sep (x # xs) = x @ concat (map (\<lambda>y. sep @ y) xs)"
  by (induction xs arbitrary: x) simp_all

lemma category_label_known:
  "c \<in> set categories \<Longrightarrow> category_label (value' c) = label c"
proof -
  assume "c \<in> set categories"
  then have "c = categories ! 0 \<or> c = categories ! 1 \<or> c = categories ! 2 \<or> c = categories ! 3
      \<or> c = categories ! 4 \<or> c = categories ! 5 \<or> c = categories ! 6"
    by (simp add: categories_def)
  then show ?thesis
    by (elim disjE) (simp_all add: category_label_def categories_def)
qed

lemma category_label_unknown:
  "code \<notin> value' ` set categories \<Longrightarrow> category_label code = code"
proof -
  assume "code \<notin> value' ` set categories"
  then have "find (\<lambda>c. value' c = code) categories = None"
    by (auto simp: find_None_iff)
  then show ?thesis
    by (simp add: category_label_def)
qed

lemma csvContent_lines:
  "csvContent xs =
     join [CHR 0x0A]
       (''Date,Description,Category,Amount''
        # map (\<lambda>e. date e @ '','' @ description e @ '','' @ category_label (category e) @ '',''
                   @ toFixed 2 (amount e)) xs)"
  by (simp add: csvContent_def export_row_def comp_def)

lemma exportToCSV_nonempty:
  "expenses s \<noteq> [] \<Longrightarrow>
     downloads (exportToCSV s) =
       downloads s
       @ [Blob_download ''cleaned_financial_data.csv'' ''text/csv'' (csvContent (expenses s))]"
  by (simp add: exportToCSV_def save_file_def toast_success_def)

text \<open>The two additions of the scenario, at any readings of the clock.\<close>

definition coffee_then_bus :: "int \<Rightarrow> string \<Rightarrow> int \<Rightarrow> string \<Rightarrow> app" where
  "coffee_then_bus t1 d1 t2 d2 =
     run [Add t1 d1 ''25.50'' ''Coffee'' ''food'', Add t2 d2 ''12.00'' ''Bus'' ''transport'']
       (initial Map.empty)"

lemma expenses_commit [simp]: "expenses (commit s) = expenses s"
  by (simp add: commit_def save_effect_def setItem_def)

lemma downloads_commit [simp]: "downloads (commit s) = downloads s"
  by (simp add: commit_def save_effect_def setItem_def)

lemma toasts_commit [simp]: "toasts (commit s) = toasts s"
  by (simp add: commit_def save_effect_def setItem_def)

lemma fill_form_fields [simp]:
  "amount_state (fill_form a d c s) = a"
  "description_state (fill_form a d c s) = d"
  "category_state (fill_form a d c s) = c"
  "expenses (fill_form a d c s) = expenses s"
  "downloads (fill_form a d c s) = downloads s"
  "toasts (fill_form a d c s) = toasts s"
  by (simp_all add: fill_form_def)

lemma downloads_addExpense [simp]: "downloads (addExpense now today s) = downloads s"
  by (simp add: addExpense_def toast_error_def toast_success_def setExpenses_def Let_def)

lemma coffee_then_bus_expenses:
  "expenses (coffee_then_bus t1 d1 t2 d2) =
     [\<lparr>id' = int_toString t2, amount = Fin 3 2, description = ''Bus'',
       category = ''transport'', date = d2\<rparr>,
      \<lparr>id' = int_toString t1, amount = Fin 51 (- 1), description = ''Coffee'',
       category = ''food'', date = d1\<rparr>]"
  by (simp add: coffee_then_bus_def run_def addExpense_valid parseFloat_25_50 parseFloat_12_00
        initial_def)

lemma coffee_then_bus_downloads: "downloads (coffee_then_bus t1 d1 t2 d2) = []"
  by (simp add: coffee_then_bus_def run_def initial_def)

lemma coffee_then_bus_csv:
  "downloads (exportToCSV (coffee_then_bus t1 d1 t2 d2)) =
     [Blob_download ''cleaned_financial_data.csv'' ''text/csv''
        (''Date,Description,Category,Amount'' @ [CHR 0x0A]
         @ d2 @ '',Bus,Transportation,12.00'' @ [CHR 0x0A]
         @ d1 @ '',Coffee,Food & Dining,25.50'')]"
  by (simp add: exportToCSV_nonempty coffee_then_bus_expenses coffee_then_bus_downloads
        csvContent_lines toFixed_25_50 toFixed_12_00 category_label_food
        category_label_transport)

text \<open>
  C4, as the code has it.  On a list that is not empty the CSV export saves a text whose
  first line is the header \<open>Date,Description,Category,Amount\<close>, followed by one line per
  record in snapshot order: the date, the description, the category and the amount,
  joined by commas.  The category is the label of its code, and the code itself when no
  entry has it.  The amount is printed by \<open>toFixed(2)\<close>: with exactly two decimals when it
  is finite and below \<open>10 ^ 21\<close> in magnitude.  After Add(25.50, "Coffee", "food") and
  Add(12.00, "Bus", "transport") the lines are the one of Bus, with 12.00, and then the
  one of Coffee, with 25.50.
\<close>

theorem exportToCSV_text:
  "(expenses s \<noteq> [] \<longrightarrow>
      downloads (exportToCSV s) =
        downloads s
        @ [Blob_download ''cleaned_financial_data.csv'' ''text/csv''
             (join [CHR 0x0A]
                (''Date,Description,Category,Amount''
                 # map (\<lambda>e. date e @ '','' @ description e @ '',''
                            @ category_label (category e) @ '','' @ toFixed 2 (amount e))
                     (expenses s)))])
   \<and> (\<forall>c \<in> set categories. category_label (value' c) = label c)
   \<and> (\<forall>code. code \<notin> value' ` set categories \<longrightarrow> category_label code = code)
   \<and> (\<forall>x. below_1e21 x \<longrightarrow> two_decimals (toFixed 2 x))
   \<and> (\<forall>t1 d1 t2 d2.
         downloads (exportToCSV (coffee_then_bus t1 d1 t2 d2)) =
           [Blob_download ''cleaned_financial_data.csv'' ''text/csv''
              (''Date,Description,Category,Amount'' @ [CHR 0x0A]
               @ d2 @ '',Bus,Transportation,12.00'' @ [CHR 0x0A]
               @ d1 @ '',Coffee,Food & Dining,25.50'')])"
proof (intro conjI allI impI ballI)
  assume "expenses s \<noteq> []"
  then show "downloads (exportToCSV s) =
      downloads s
      @ [Blob_download ''cleaned_financial_data.csv'' ''text/csv''
           (join [CHR 0x0A]
              (''Date,Description,Category,Amount''
               # map (\<lambda>e. date e @ '','' @ description e @ '',''
                          @ category_label (category e) @ '','' @ toFixed 2 (amount e))
                   (expenses s)))]"
    by (simp add: exportToCSV_nonempty csvContent_lines)
next
  fix c assume "c \<in> set categories"
  then show "category_label (value' c) = label c"
    by (rule category_label_known)
next
  fix code assume "code \<notin> value' ` set categories"
  then show "category_label code = code"
    by (rule category_label_unknown)
next
  fix x assume "below_1e21 x"
  then show "two_decimals (toFixed 2 x)"
    by (rule toFixed_two_decimals)
next
  fix t1 d1 t2 d2
  show "downloads (exportToCSV (coffee_then_bus t1 d1 t2 d2)) =
      [Blob_download ''cleaned_financial_data.csv'' ''text/csv''
         (''Date,Description,Category,Amount'' @ [CHR 0x0A]
          @ d2 @ '',Bus,Transportation,12.00'' @ [CHR 0x0A]
          @ d1 @ '',Coffee,Food & Dining,25.50'')]"
    by (rule coffee_then_bus_csv)
qed

theorem exportToCSV_text_witness:
  "downloads (exportToCSV one_coffee) =
     [Blob_download ''cleaned_financial_data.csv'' ''text/csv''
        (''Date,Description,Category,Amount'' @ [CHR 0x0A]
         @ ''11/3/2026,Coffee,Food & Dining,25.50'')]
   \<and> category_label ''food'' = ''Food & Dining''
   \<and> category_label ''gifts'' = ''gifts''
   \<and> below_1e21 (Fin 51 (- 1))
   \<and> two_decimals (toFixed 2 (Fin 51 (- 1)))"
proof -
  note inst = exportToCSV_text [of one_coffee]
  have nonempty: "expenses one_coffee \<noteq> []"
    by (simp add: one_coffee_def)
  have food: "\<lparr>value' = ''food'', label = ''Food & Dining'', color = ''category-food''\<rparr>
                \<in> set categories"
    by (simp add: categories_def)
  have gifts: "''gifts'' \<notin> value' ` set categories"
    by (simp add: categories_def)
  have small: "below_1e21 (Fin 51 (- 1))"
    by (simp add: below_1e21_def at_least_1e21_def)
  have csv: "downloads (exportToCSV one_coffee) =
     [Blob_download ''cleaned_financial_data.csv'' ''text/csv''
        (''Date,Description,Category,Amount'' @ [CHR 0x0A]
         @ ''11/3/2026,Coffee,Food & Dining,25.50'')]"
    using inst [THEN conjunct1, THEN mp, OF nonempty]
    by (simp add: one_coffee_def initial_def toFixed_25_50 category_label_food)
  have known: "category_label ''food'' = ''Food & Dining''"
    using inst [THEN conjunct2, THEN conjunct1, THEN bspec, OF food] by simp
  have unknown: "category_label ''gifts'' = ''gifts''"
    using inst [THEN conjunct2, THEN conjunct2, THEN conjunct1, THEN spec, THEN mp, OF gifts] .
  have printed: "two_decimals (toFixed 2 (Fin 51 (- 1)))"
    using inst [THEN conjunct2, THEN conjunct2, THEN conjunct2, THEN conjunct1, THEN spec,
        THEN mp, OF small] .
  from csv known unknown small printed show ?thesis
    by (intro conjI)
qed

text \<open>
  The claim as stated fails on an amount of \<open>10 ^ 21\<close>, which the number field of the
  form accepts as \<open>1e21\<close>: \<open>toFixed(2)\<close> prints it as \<open>1e+21\<close>, with no decimals.
\<close>

definition one_rocket :: app where
  "one_rocket =
     addExpense 1762167600123 ''11/3/2026''
       (fill_form ''1e21'' ''Rocket'' ''other'' (initial Map.empty))"

lemma find_digits_numeral:
  "find_digits (numeral n) k m e n0 =
     (case try_digits k m e n0 of
        Some r \<Rightarrow> r
      | None \<Rightarrow> find_digits (pred_numeral n) (Suc k) m e n0)"
  by (simp add: numeral_eq_Suc)

lemma try_digits_1e21: "try_digits (Suc 0) 476837158203125 21 22 = Some (1, 22)"
  by (simp add: try_digits_def round_dec_def ratio_of_def num_eval)

lemma dec_exponent_1e21: "dec_exponent 1000000000000000000000 1 = 22"
  by (simp add: dec_exponent_def digits_of.simps)

lemma positive_toString_1e21: "positive_toString 476837158203125 21 = ''1e+21''"
  by (simp add: positive_toString_def ratio_of_def dec_exponent_1e21 find_digits_numeral
        try_digits_1e21 digits_of.simps digit_char_def)

lemma toFixed_1e21: "toFixed 2 (Fin 476837158203125 21) = ''1e+21''"
  by (simp add: toFixed_def at_least_1e21_def positive_toString_1e21)

lemma one_rocket_expenses:
  "expenses one_rocket =
     [\<lparr>id' = ''1762167600123'', amount = Fin 476837158203125 21, description = ''Rocket'',
       category = ''other'', date = ''11/3/2026''\<rparr>]"
  by (simp add: one_rocket_def addExpense_valid initial_def parseFloat_1e21 digits_eval)

theorem exportToCSV_exponent_counterexample:
  "downloads (exportToCSV one_rocket) =
     [Blob_download ''cleaned_financial_data.csv'' ''text/csv''
        (''Date,Description,Category,Amount'' @ [CHR 0x0A]
         @ ''11/3/2026,Rocket,Other,1e+21'')]
   \<and> \<not> two_decimals ''1e+21''"
proof -
  have "downloads one_rocket = []"
    by (simp add: one_rocket_def initial_def)
  then have "downloads (exportToCSV one_rocket) =
     [Blob_download ''cleaned_financial_data.csv'' ''text/csv''
        (''Date,Description,Category,Amount'' @ [CHR 0x0A]
         @ ''11/3/2026,Rocket,Other,1e+21'')]"
    by (simp add: exportToCSV_nonempty one_rocket_expenses csvContent_lines toFixed_1e21
          category_label_other)
  moreover have "\<not> two_decimals ''1e+21''"
    by (simp add: two_decimals_def is_digit_def)
  ultimately show ?thesis by simp
qed

section \<open>Identifiers\<close>

lemma digit_val_digit_char: "k < 10 \<Longrightarrow> digit_val (digit_char k) = k"
proof -
  assume "k < 10"
  then have "k = 0 \<or> k = 1 \<or> k = 2 \<or> k = 3 \<or> k = 4 \<or> k = 5 \<or> k = 6 \<or> k = 7 \<or> k = 8 \<or> k = 9"
    by arith
  then show ?thesis
    by (elim disjE) (simp_all add: digit_val_def digit_char_def)
qed

lemma digits_val_snoc: "digits_val (ds @ [c]) = 10 * digits_val ds + digit_val c"
  by (simp add: digits_val_def)

lemma digits_val_digits_of: "digits_val (digits_of n) = n"
proof (induction n rule: digits_of.induct)
  case (1 n)
  show ?case
  proof (cases "n < 10")
    case True
    then show ?thesis
      by (simp add: digits_of.simps [of n] digits_val_def digit_val_digit_char)
  next
    case False
    then have "digits_val (digits_of (n div 10)) = n div 10"
      using 1 by simp
    with False show ?thesis
      by (simp add: digits_of.simps [of n] digits_val_snoc digit_val_digit_char)
  qed
qed

lemma digits_of_inj: "digits_of a = digits_of b \<Longrightarrow> a = b"
  by (metis digits_val_digits_of)

lemma minus_not_in_digits_of: "CHR ''-'' \<notin> set (digits_of n)"
  using digits_of_digits [of n] not_digit_minus by (auto simp: list_all_iff)

lemma int_toString_inj: "int_toString a = int_toString b \<Longrightarrow> a = b"
proof -
  assume eq: "int_toString a = int_toString b"
  consider "a < 0" "b < 0" | "a < 0" "0 \<le> b" | "0 \<le> a" "b < 0" | "0 \<le> a" "0 \<le> b"
    by linarith
  then show "a = b"
  proof cases
    case 1
    with eq have "digits_of (nat (- a)) = digits_of (nat (- b))"
      by (simp add: int_toString_def)
    then have "nat (- a) = nat (- b)"
      by (rule digits_of_inj)
    with 1 show ?thesis by simp
  next
    case 2
    with eq have "CHR ''-'' # digits_of (nat (- a)) = digits_of (nat b)"
      by (simp add: int_toString_def)
    then have "CHR ''-'' \<in> set (digits_of (nat b))"
      by (metis list.set_intros(1))
    then show ?thesis
      using minus_not_in_digits_of by blast
  next
    case 3
    with eq have "digits_of (nat a) = CHR ''-'' # digits_of (nat (- b))"
      by (simp add: int_toString_def)
    then have "CHR ''-'' \<in> set (digits_of (nat a))"
      by (metis list.set_intros(1))
    then show ?thesis
      using minus_not_in_digits_of by blast
  next
    case 4
    with eq have "digits_of (nat a) = digits_of (nat b)"
      by (simp add: int_toString_def)
    then have "nat a = nat b"
      by (rule digits_of_inj)
    with 4 show ?thesis by simp
  qed
qed

text \<open>
  The invariant of a session: the ids of the list are distinct, and each one prints a
  reading of the clock out of \<open>T\<close>.
\<close>

definition ids_from :: "int set \<Rightarrow> app \<Rightarrow> bool" where
  "ids_from T s =
     (distinct (map id' (expenses s)) \<and> set (map id' (expenses s)) \<subseteq> int_toString ` T)"

lemma expenses_step_Add:
  "expenses (step (Add now today a d c) s) = expenses s
   \<or> expenses (step (Add now today a d c) s) =
       \<lparr>id' = int_toString now, amount = parseFloat a, description = d, category = c,
        date = today\<rparr> # expenses s"
proof (cases "a = [] \<or> d = [] \<or> c = []")
  case True
  then show ?thesis
    by (simp add: addExpense_invalid)
next
  case False
  then show ?thesis
    by (simp add: addExpense_valid)
qed

lemma ids_from_step_Add:
  assumes "ids_from T s" "now \<notin> T"
  shows "ids_from (insert now T) (step (Add now today a d c) s)"
proof -
  have fresh: "int_toString now \<notin> int_toString ` T"
    using assms(2) int_toString_inj by blast
  from expenses_step_Add [of now today a d c s] show ?thesis
  proof
    assume "expenses (step (Add now today a d c) s) = expenses s"
    with assms(1) show ?thesis
      by (auto simp: ids_from_def)
  next
    assume "expenses (step (Add now today a d c) s) =
       \<lparr>id' = int_toString now, amount = parseFloat a, description = d, category = c,
        date = today\<rparr> # expenses s"
    with assms(1) fresh show ?thesis
      by (auto simp: ids_from_def)
  qed
qed

lemma ids_from_step_Delete: "ids_from T s \<Longrightarrow> ids_from T (step (Delete i) s)"
  by (auto simp: ids_from_def expenses_deleteExpense distinct_map_filter)

lemma ids_from_step_Reset: "ids_from T s \<Longrightarrow> ids_from T (step Reset s)"
  by (simp add: ids_from_def resetAllExpenses_def toast_success_def removeItem_def
        setExpenses_def)

lemma ids_from_step:
  assumes "ids_from T s" "set (add_time ev) \<inter> T = {}"
  shows "ids_from (T \<union> set (add_time ev)) (step ev s)"
proof (cases ev)
  case (Add now today a d c)
  with assms show ?thesis
    using ids_from_step_Add [of T s now today a d c] by simp
next
  case (Delete i)
  with assms show ?thesis
    by (simp add: ids_from_step_Delete del: step.simps)
next
  case Reset
  with assms show ?thesis
    by (simp add: ids_from_step_Reset del: step.simps)
qed

lemma ids_from_run:
  "ids_from T s \<Longrightarrow> distinct (add_times evs) \<Longrightarrow> set (add_times evs) \<inter> T = {} \<Longrightarrow>
     ids_from (T \<union> set (add_times evs)) (run evs s)"
proof (induction evs arbitrary: T s)
  case Nil
  then show ?case
    by (simp add: run_def add_times_def)
next
  case (Cons ev evs)
  have times: "add_times (ev # evs) = add_time ev @ add_times evs"
    by (simp add: add_times_def)
  have run: "run (ev # evs) s = run evs (step ev s)"
    by (simp add: run_def)
  from Cons.prems(3) have here: "set (add_time ev) \<inter> T = {}"
    unfolding times by auto
  have one: "ids_from (T \<union> set (add_time ev)) (step ev s)"
    using Cons.prems(1) here by (rule ids_from_step)
  from Cons.prems(2) have rest: "distinct (add_times evs)"
    unfolding times by simp
  from Cons.prems(2,3) have apart: "set (add_times evs) \<inter> (T \<union> set (add_time ev)) = {}"
    unfolding times by auto
  have "ids_from ((T \<union> set (add_time ev)) \<union> set (add_times evs)) (run evs (step ev s))"
    using one rest apart by (rule Cons.IH)
  then show ?case
    unfolding run times by (simp add: Un_assoc)
qed

text \<open>
  C9, as the code has it.  The id of a record is the reading of \<open>Date.now()\<close> at its
  addition, printed in decimal, and nothing checks it against the ids in the list.  In
  every state reached from an empty list by additions, deletions and resets whose
  additions read pairwise different values of the clock, the ids of the list are
  distinct.
\<close>

theorem ids_distinct_when_clock_readings_differ:
  "expenses s = [] \<and> distinct (add_times evs) \<longrightarrow> distinct (map id' (expenses (run evs s)))"
proof
  assume a: "expenses s = [] \<and> distinct (add_times evs)"
  then have "ids_from {} s"
    by (simp add: ids_from_def)
  then have "ids_from ({} \<union> set (add_times evs)) (run evs s)"
    using a by (intro ids_from_run) simp_all
  then show "distinct (map id' (expenses (run evs s)))"
    by (simp add: ids_from_def)
qed

theorem ids_distinct_when_clock_readings_differ_witness:
  "expenses (initial Map.empty) = []
   \<and> distinct (add_times
        [Add 1762167600123 ''11/3/2026'' ''25.50'' ''Coffee'' ''food'',
         Add 1762167600456 ''11/3/2026'' ''12.00'' ''Bus'' ''transport'',
         Delete ''1762167600123'',
         Add 1762167600789 ''11/3/2026'' ''3'' ''Gum'' ''food''])
   \<and> distinct (map id' (expenses (run
        [Add 1762167600123 ''11/3/2026'' ''25.50'' ''Coffee'' ''food'',
         Add 1762167600456 ''11/3/2026'' ''12.00'' ''Bus'' ''transport'',
         Delete ''1762167600123'',
         Add 1762167600789 ''11/3/2026'' ''3'' ''Gum'' ''food'']
        (initial Map.empty))))"
  using ids_distinct_when_clock_readings_differ [of "initial Map.empty"
      "[Add 1762167600123 ''11/3/2026'' ''25.50'' ''Coffee'' ''food'',
        Add 1762167600456 ''11/3/2026'' ''12.00'' ''Bus'' ''transport'',
        Delete ''1762167600123'',
        Add 1762167600789 ''11/3/2026'' ''3'' ''Gum'' ''food'']"]
  by (simp add: initial_def add_times_def)

text \<open>
  The claim as stated fails when two additions read the same value of the clock: both
  records get the same id.
\<close>

theorem ids_repeat_counterexample:
  "map id' (expenses (run
      [Add 1762167600000 ''11/3/2026'' ''25.50'' ''Coffee'' ''food'',
       Add 1762167600000 ''11/3/2026'' ''12.00'' ''Bus'' ''transport'']
      (initial Map.empty)))
     = [''1762167600000'', ''1762167600000'']
   \<and> \<not> distinct (map id' (expenses (run
      [Add 1762167600000 ''11/3/2026'' ''25.50'' ''Coffee'' ''food'',
       Add 1762167600000 ''11/3/2026'' ''12.00'' ''Bus'' ''transport'']
      (initial Map.empty))))"
  by (simp add: run_def addExpense_valid initial_def digits_eval)

section \<open>Loading and resetting\<close>

lemma JSON_parse_fuel:
  "JSON_parse s =
     (case parse_value (Suc (Suc (2 * length s))) (skip_ws s) of
        Inl Bad \<Rightarrow> Inl SyntaxError
      | Inl Fuel \<Rightarrow> Inl OutOfFuel
      | Inr (v, r) \<Rightarrow> if skip_ws r = [] then Inr v else Inl SyntaxError)"
  by (simp add: JSON_parse_def)

lemma JSON_stringify_Nil: "JSON_stringify [] = ''[]''"
  by (simp add: JSON_stringify_def)

subsection \<open>The step bound of the parser\<close>













subsection \<open>Mounting\<close>

text \<open>The two texts of the examples below, parsed with any number of steps.\<close>

lemma parse_value_empty_array: "parse_value (Suc n) ''[]'' = Inr (JArray [], [])"
  by (simp add: skip_ws_def)


lemma JSON_parse_empty_array: "JSON_parse ''[]'' = Inr (JArray [])"
proof -
  have ws: "skip_ws ''[]'' = ''[]''"
    by (simp add: skip_ws_def)
  show ?thesis
    by (simp only: JSON_parse_fuel ws parse_value_empty_array) (simp add: skip_ws_def)
qed


lemma as_Expenses_Nil: "as_Expenses (JArray []) = Some []"
  by (simp add: as_Expenses_def)












lemma getItem_initial: "localStorage (initial st) k = st k"
  by (simp add: initial_def)


lemma expenses_setItem [simp]: "expenses (setItem k v s) = expenses s"
  by (simp add: setItem_def)


lemma mount_parsed:
  "st ''expenses'' = Some saved \<Longrightarrow> saved \<noteq> [] \<Longrightarrow> JSON_parse saved = Inr v \<Longrightarrow>
     as_Expenses v = Some xs \<Longrightarrow>
     mount st =
       Ran (commit (setItem ''expenses'' (JSON_stringify []) (setExpenses xs (initial st))))"
  by (simp add: mount_def load_effect_def getItem_initial)






lemma resetAllExpenses_fields:
  "expenses (resetAllExpenses s) = []"
  "expenses_changed (resetAllExpenses s)"
  "localStorage (resetAllExpenses s) = (localStorage s)(''expenses'' := None)"
  "toasts (resetAllExpenses s) = toasts s @ [Toast_success ''All expenses cleared'']"
  by (simp_all add: resetAllExpenses_def toast_success_def removeItem_def setExpenses_def)

lemma localStorage_commit_changed:
  "expenses_changed s \<Longrightarrow>
     localStorage (commit s) = (localStorage s)(''expenses'' \<mapsto> JSON_stringify (expenses s))"
  by (simp add: commit_def save_effect_def setItem_def)

lemma storage_after_reset:
  "localStorage (commit (resetAllExpenses s)) = (localStorage s)(''expenses'' \<mapsto> ''[]'')"
  by (simp add: localStorage_commit_changed resetAllExpenses_fields JSON_stringify_Nil)

text \<open>
  C2.  Reset empties the list and makes the total 0, and its handler removes the key
  \<open>expenses\<close> from the storage.  But the handler has set the list, so the render that
  follows runs the saving effect, which stores the empty list \<open>[]\<close> under the key again:
  after Reset the key is present.  A fresh load from that storage gives the empty list.
\<close>

theorem reset_stores_empty_list:
  "expenses (commit (resetAllExpenses s)) = []
   \<and> totalExpenses (expenses (commit (resetAllExpenses s))) = Fin 0 0
   \<and> localStorage (resetAllExpenses s) ''expenses'' = None
   \<and> localStorage (commit (resetAllExpenses s)) ''expenses'' = Some ''[]''
   \<and> (\<exists>s'. mount (localStorage (commit (resetAllExpenses s))) = Ran s' \<and> expenses s' = [])"
proof -
  have "mount (localStorage (commit (resetAllExpenses s))) =
      Ran (commit (setItem ''expenses'' (JSON_stringify [])
        (setExpenses [] (initial (localStorage (commit (resetAllExpenses s)))))))"
    by (rule mount_parsed [where saved = "''[]''" and v = "JArray []"])
      (simp_all add: storage_after_reset JSON_parse_empty_array as_Expenses_Nil)
  then have "\<exists>s'. mount (localStorage (commit (resetAllExpenses s))) = Ran s' \<and> expenses s' = []"
    by (simp add: setExpenses_def)
  then show ?thesis
    by (simp add: resetAllExpenses_fields storage_after_reset totalExpenses_def)
qed

end
